theory Spec2Isabelle
  imports Complex_Main "HOL-Library.Log_Nat"
begin

section \<open>Data model\<close>

text \<open>
  The settlement engine of the trade bot: the class \<open>Instance\<close> with its deposit and
  withdrawal workflows, the offer-state handlers and the OPSkins marketplace bridge, and
  \<open>fail\<close> of \<open>utils.ts\<close>.

  Amounts (balances, totals, listing amounts, cached prices) are integers in minor
  currency units. Identifiers of rows and accounts are natural numbers; the source compares
  the id returned by the store with the id of the notification payload by \<open>!==\<close>, so both
  sides carry the same representation. Timestamps are natural numbers.
\<close>

text \<open>Values that the source throws or passes as \<open>err\<close>: an \<open>Error\<close> with its message, a
  string, or any other value (kept as its JSON text).\<close>

datatype exn = Error string | StringValue string | ObjectValue string

text \<open>\<open>errMessage\<close> of \<open>utils.ts\<close>; \<open>fail\<close> computes its message the same way.\<close>

fun errMessage :: "exn \<Rightarrow> string" where
  "errMessage (Error m) = m"
| "errMessage (StringValue s) = s"
| "errMessage (ObjectValue json) = json"

datatype TradeOfferState =
    Invalid | Active | Accepted | Countered | Expired | Cancelled | Declined
  | InvalidItems | CreatedNeedsConfirmation | CanceledBySecondFactor | InEscrow

definition COMPLETABLE_STATES :: "TradeOfferState list" where
  "COMPLETABLE_STATES = [Active, CreatedNeedsConfirmation]"

definition MAX_WITHDRAWAL_SIZE :: nat where
  "MAX_WITHDRAWAL_SIZE = 3"

record Config =
  opskins_key :: string
  identity_secret :: string
  app_id :: nat
  context_id :: nat

record User =
  steam_id :: nat
  trade_link_url :: "string option"
  balance :: int

text \<open>A row of \<open>trade_deposits\<close> or \<open>trade_withdrawals\<close>: the fields of the interface
  \<open>Trade\<close> and the further columns the statements of \<open>Instance\<close> name
  (\<open>app_id\<close>, \<open>acknowledged_at\<close>, \<open>steam_offer_id\<close>, \<open>failed_at\<close>, \<open>failure_details\<close>,
  \<open>cancelled_at\<close>).
  \<open>bonus\<close> is the \<open>_bonus\<close> of \<open>TradeDeposit\<close>; no statement on withdrawals reads it.\<close>

record Trade =
  trade_id :: nat
  trade_app_id :: nat
  user_steam_id :: nat
  item_names :: "string list"
  merchant_steam_id :: "nat option"
  acknowledged_at :: "nat option"
  offered_at :: "nat option"
  steam_offer_id :: "string option"
  completed_at :: "nat option"
  failed_at :: "nat option"
  failure_details :: "string option"
  cancelled_at :: "nat option"
  total :: int
  bonus :: int

record TradeDepositItem =
  trade_deposit_id :: nat
  deposit_steam_asset_id :: string

record TradeWithdrawalItem =
  trade_withdrawal_id :: nat
  withdrawal_steam_asset_id :: string

text \<open>A row of \<open>steam_item_price_cache\<close>. \<open>base_price_usd\<close> is a decimal amount in major
  units.\<close>

record PriceCacheRow =
  market_hash_name :: string
  base_price_usd :: rat
  blacklisted :: bool

record Db =
  trade_deposits :: "Trade list"
  trade_withdrawals :: "Trade list"
  users :: "User list"
  trade_deposit_items :: "TradeDepositItem list"
  trade_withdrawal_items :: "TradeWithdrawalItem list"
  steam_item_price_cache :: "PriceCacheRow list"

text \<open>An item of a Steam inventory, with the two properties the source reads.\<close>

record InventoryItem =
  assetid :: string
  item_market_hash_name :: string

text \<open>An entry of \<open>OpskinsPriceData\<close>.\<close>

record LowestPrice =
  price :: int
  quantity :: int

type_synonym OpskinsPriceData = "string \<rightharpoonup> LowestPrice"

text \<open>\<open>DbItemPrices\<close>: each entry has the single field \<open>price\<close>, which is the value of the
  map.\<close>

type_synonym DbItemPrices = "string \<rightharpoonup> int"

record ToListItem =
  list_appid :: nat
  list_contextid :: nat
  list_assetid :: string
  list_price :: int

section \<open>Cached safe prices\<close>

text \<open>The numbers of the source are IEEE 754 doubles. A double is modelled by the rational
  it denotes. \<open>to_double\<close> is the rounding that \<open>parseFloat\<close> and the multiplication apply
  to the exact result: to the nearest number with 53 significant bits, a tie to the
  one whose last bit is even; below \<open>pow2 (- 1022)\<close> the spacing stays \<open>pow2 (- 1074)\<close>.
  \<open>pow2 e\<close> is the power of two with exponent \<open>e\<close>, and \<open>floor_log2 x\<close> for \<open>0 < x\<close> is the
  exponent \<open>e\<close> with \<open>pow2 e \<le> x < pow2 (e + 1)\<close>. Overflow to \<open>Infinity\<close> is not
  represented: it needs a magnitude of \<open>pow2 1024\<close>, and the prices that
  \<open>_getDbCentPrices\<close> converts are at most 10000.\<close>

definition pow2 :: "int \<Rightarrow> rat" where
  "pow2 e = (if 0 \<le> e then 2 ^ nat e else 1 / 2 ^ nat (- e))"

definition floor_log2 :: "rat \<Rightarrow> int" where
  "floor_log2 x = (if 1 \<le> x then bitlen \<lfloor>x\<rfloor> - 1 else - bitlen (\<lceil>1 / x\<rceil> - 1))"

definition round_half_even :: "rat \<Rightarrow> int" where
  "round_half_even x =
     (let n = \<lfloor>x\<rfloor>; f = x - of_int n
      in if f < 1 / 2 then n else if 1 / 2 < f then n + 1 else if even n then n else n + 1)"

definition to_double :: "rat \<Rightarrow> rat" where
  "to_double x =
     (if x = 0 then 0
      else let ulp = pow2 (max (floor_log2 \<bar>x\<bar>) (- 1022) - 52)
           in sgn x * of_int (round_half_even (\<bar>x\<bar> / ulp)) * ulp)"

text \<open>\<open>Math.round\<close> of a double: the nearest integer, a tie to the larger one.\<close>

definition Math_round :: "rat \<Rightarrow> int" where
  "Math_round x = \<lfloor>x + 1 / 2\<rfloor>"

text \<open>\<open>_getDbCentPrices\<close>: the rows of the cache that are not blacklisted and lie in the
  price range, each converted to minor units; rows whose price in minor units is not
  positive are left out, a later row of a name replaces an earlier one, and no row at all
  gives \<open>undefined\<close> (here \<open>None\<close>). The store compares the decimal column exactly; the
  conversion \<open>Math.round(parseFloat(result.base_price_usd) * 100)\<close> reads the decimal as a
  double and multiplies in doubles, so that a price with more than two decimals can come
  out one minor unit below the rounding of the exact product (8.575 gives 857). A row in
  the range is a number, so \<open>isNaN(price)\<close> is false.\<close>

definition cent_price :: "PriceCacheRow \<Rightarrow> int" where
  "cent_price r = Math_round (to_double (to_double (base_price_usd r) * 100))"

definition add_db_price :: "DbItemPrices \<Rightarrow> PriceCacheRow \<Rightarrow> DbItemPrices" where
  "add_db_price dbPrices r =
     (if cent_price r > 0 then dbPrices(market_hash_name r \<mapsto> cent_price r) else dbPrices)"

definition getDbCentPrices :: "rat \<Rightarrow> rat \<Rightarrow> Db \<Rightarrow> DbItemPrices option" where
  "getDbCentPrices minPrice maxPrice d =
     (let results = filter (\<lambda>r. \<not> blacklisted r \<and> minPrice \<le> base_price_usd r
                                  \<and> base_price_usd r \<le> maxPrice)
                           (steam_item_price_cache d)
      in if results = [] then None else Some (foldl add_db_price Map.empty results))"

section \<open>List-after-acquisition: the pricing loop of \<open>_listItemsToOpskins\<close>\<close>

text \<open>
  The products with \<open>1.05\<close> and \<open>0.65\<close> are computed by the source in binary floating
  point on integer operands. For the amounts that occur (below \<open>2^50\<close>) the rounded
  product lies on the same side of every integer as the exact product: the exact product is
  a multiple of \<open>1/20\<close>, and the rounding error is far below \<open>1/20\<close> and vanishes where the
  exact product is an integer. So the comparisons with integers and \<open>Math.ceil\<close> are
  those of the exact product, which the model computes over the rationals.
\<close>

definition scarcity_multiplier :: "LowestPrice \<Rightarrow> rat" where
  "scarcity_multiplier op = (if quantity op \<le> 12 then 105 / 100 else 1)"

definition listing_price :: "LowestPrice \<Rightarrow> int \<Rightarrow> rat \<Rightarrow> int" where
  "listing_price op sp multiplier =
     (if of_int (price op) \<le> of_int sp * (65 / 100 :: rat) then sp
      else \<lceil>of_int (price op) * multiplier\<rceil>)"

text \<open>One pass of the loop body (lines 990 to 1002) for the item \<open>it\<close>: reading
  \<open>opPriceData[key].quantity\<close> comes first and throws a \<open>TypeError\<close> when the entry is
  missing; the guard \<open>!opPriceData[key] || !spPriceData[key]\<close> comes second.\<close>

datatype list_step = Throws exn | Skips | Pushes ToListItem

definition TypeError_quantity :: exn where
  "TypeError_quantity = Error ''Cannot read property 'quantity' of undefined''"

definition list_item_step ::
  "Config \<Rightarrow> OpskinsPriceData \<Rightarrow> DbItemPrices \<Rightarrow> InventoryItem \<Rightarrow> list_step" where
  "list_item_step cfg opPriceData spPriceData it =
     (let key = item_market_hash_name it in
      case opPriceData key of
        None \<Rightarrow> Throws TypeError_quantity
      | Some op \<Rightarrow>
          (let multiplier = scarcity_multiplier op in
           if opPriceData key = None \<or> spPriceData key = None then Skips
           else Pushes \<lparr> list_appid = app_id cfg, list_contextid = context_id cfg,
                         list_assetid = assetid it,
                         list_price = listing_price op (the (spPriceData key)) multiplier \<rparr>))"

text \<open>The loop \<open>for (i = 0; i < items.length && listItems.length < liimt; i++)\<close>, on the
  items from index \<open>i\<close> on.\<close>

fun list_loop ::
  "Config \<Rightarrow> OpskinsPriceData \<Rightarrow> DbItemPrices \<Rightarrow> int \<Rightarrow> InventoryItem list \<Rightarrow> ToListItem list
     \<Rightarrow> exn + ToListItem list" where
  "list_loop cfg opPriceData spPriceData liimt [] listItems = Inr listItems"
| "list_loop cfg opPriceData spPriceData liimt (it # items) listItems =
     (if \<not> int (length listItems) < liimt then Inr listItems
      else case list_item_step cfg opPriceData spPriceData it of
             Throws e \<Rightarrow> Inl e
           | Skips \<Rightarrow> list_loop cfg opPriceData spPriceData liimt items listItems
           | Pushes li \<Rightarrow> list_loop cfg opPriceData spPriceData liimt items (listItems @ [li]))"


section \<open>The world of one merchant process\<close>

text \<open>
  The state that a workflow reads and changes: the relational store, the configuration,
  the Steam identity of the logged-on merchant (\<open>this._user.steamID\<close>), the clock, and the
  collaborators outside the process. Every call to a collaborator is recorded in \<open>trace\<close>
  in the order of the calls. What a collaborator answers is not decided by this program:
  for each kind of call the world holds the answers still to come, in order, and a call
  takes the first one; when none is left the call fails with an error.

  The methods \<open>_withdrawOpskinsItems\<close>, \<open>_checkOpskinsUserInventory\<close>, \<open>_listAgainItems\<close>
  and \<open>_listItems\<close> only talk to the marketplace and to Steam and write nothing to the
  store; a call of one of them is recorded as one event, and \<open>_withdrawOpskinsItems\<close>
  answers with the boolean it resolves to. \<open>completeDeposit\<close> starts
  \<open>_listItemsToOpskins\<close> without awaiting it, which is recorded as the event
  \<open>ListItemsToOpskins\<close>; the routine itself is \<open>listItemsToOpskins\<close> below.
  \<open>_reconnectToSteam\<close> is taken to resolve.
\<close>

text \<open>A listing that a search returns, with the fields of \<open>OpskinsSearchResult\<close> that the
  source reads (\<open>sale_id\<close> is its \<open>id\<close>), and the result of a purchase
  (\<open>new_balance\<close> is the \<open>balance\<close> that \<open>_buyOpskinsItem\<close> adds to the bought item).\<close>

record OpskinsSearchResult =
  sale_id :: nat
  amount :: int
  market_name :: string

record OpskinsBuyReturn =
  new_itemid :: nat
  new_balance :: int

text \<open>The fields of \<open>userDetails.them\<close> that the workflows read.\<close>

record UserDetailsObject =
  them_probation :: bool
  them_escrowDays :: nat

text \<open>What \<open>offer.send\<close> leaves behind: the status, and \<open>offer.id\<close> and \<open>offer.created\<close>.\<close>

record SentOffer =
  sent_status :: string
  sent_id :: string
  sent_created :: nat

text \<open>The fields of a \<open>TradeOffer\<close> that the handlers of \<open>sentOfferChanged\<close> read.\<close>

record TradeOffer =
  offer_id :: string
  offer_state :: TradeOfferState

datatype event =
    OpskinsGetBalance
  | OpskinsSearch string
  | OpskinsBuy nat int string
  | OpskinsWithdrawItems "nat list"
  | OpskinsCheckUserInventory "string list"
  | OpskinsGetLowestPrices
  | OpskinsGetListingLimit
  | OpskinsListItems "ToListItem list"
  | ListAgainItems "string list"
  | ListItemsToOpskins "InventoryItem list"
  | SteamGetInventory nat
  | SteamWebLogOn
  | SteamCreateOffer string
  | SteamGetUserDetails
  | SteamAddTheirItems "InventoryItem list"
  | SteamAddMyItems "InventoryItem list"
  | SteamSendOffer
  | SteamConfirmOffer string
  | Wait nat

text \<open>The calls of the marketplace capability, and the routines that start with one.\<close>

fun marketplace_call :: "event \<Rightarrow> bool" where
  "marketplace_call OpskinsGetBalance = True"
| "marketplace_call (OpskinsSearch n) = True"
| "marketplace_call (OpskinsBuy i t n) = True"
| "marketplace_call (OpskinsWithdrawItems is) = True"
| "marketplace_call (OpskinsCheckUserInventory ns) = True"
| "marketplace_call OpskinsGetLowestPrices = True"
| "marketplace_call OpskinsGetListingLimit = True"
| "marketplace_call (OpskinsListItems ls) = True"
| "marketplace_call (ListAgainItems ns) = True"
| "marketplace_call (ListItemsToOpskins is) = True"
| "marketplace_call e = False"

record World =
  db :: Db
  config :: Config
  steamID :: "nat option"
  now :: nat
  trace :: "event list"
  balance_replies :: "(exn + int) list"
  search_replies :: "(exn + OpskinsSearchResult list) list"
  buy_replies :: "(exn + OpskinsBuyReturn) list"
  withdraw_replies :: "bool list"
  lowest_prices_replies :: "(exn + OpskinsPriceData) list"
  listing_limit_replies :: "(exn + int) list"
  inventory_replies :: "(exn + InventoryItem list) list"
  details_replies :: "(exn + UserDetailsObject) list"
  send_replies :: "(exn + SentOffer) list"
  confirm_replies :: "(exn + unit) list"

text \<open>How an asynchronous routine ends: it returns, it rejects with a thrown value, or
  its promise is never settled (a value thrown inside a callback that nobody awaits).\<close>

datatype outcome = Returned | Rejected exn | NeverSettles

datatype 'a settled = Resolved 'a | Pending

definition next_reply :: "(exn + 'a) list \<Rightarrow> (exn + 'a) \<times> (exn + 'a) list" where
  "next_reply rs = (case rs of [] \<Rightarrow> (Inl (Error ''no reply''), []) | r # rest \<Rightarrow> (r, rest))"

definition emit :: "event \<Rightarrow> World \<Rightarrow> World" where
  "emit e w = w\<lparr>trace := trace w @ [e]\<rparr>"

definition waitAsync :: "nat \<Rightarrow> World \<Rightarrow> World" where
  "waitAsync seconds w = emit (Wait seconds) w"

definition reconnectToSteam :: "World \<Rightarrow> World" where
  "reconnectToSteam w = emit SteamWebLogOn w"

definition opskins_getBalance :: "World \<Rightarrow> (exn + int) \<times> World" where
  "opskins_getBalance w =
     (case next_reply (balance_replies w) of
        (r, rest) \<Rightarrow> (r, emit OpskinsGetBalance (w\<lparr>balance_replies := rest\<rparr>)))"

definition opskins_getLowestPrices :: "World \<Rightarrow> (exn + OpskinsPriceData) \<times> World" where
  "opskins_getLowestPrices w =
     (case next_reply (lowest_prices_replies w) of
        (r, rest) \<Rightarrow> (r, emit OpskinsGetLowestPrices (w\<lparr>lowest_prices_replies := rest\<rparr>)))"

definition opskins_getListingLimit :: "World \<Rightarrow> (exn + int) \<times> World" where
  "opskins_getListingLimit w =
     (case next_reply (listing_limit_replies w) of
        (r, rest) \<Rightarrow> (r, emit OpskinsGetListingLimit (w\<lparr>listing_limit_replies := rest\<rparr>)))"

text \<open>\<open>_searchOpskins\<close>; the maximal price of the query does not enter the model.\<close>

definition searchOpskins :: "string \<Rightarrow> World \<Rightarrow> (exn + OpskinsSearchResult list) \<times> World" where
  "searchOpskins marketHashName w =
     (case next_reply (search_replies w) of
        (r, rest) \<Rightarrow> (r, emit (OpskinsSearch marketHashName) (w\<lparr>search_replies := rest\<rparr>)))"

text \<open>\<open>_buyOpskinsItem([id], amount, market_name)\<close> for one search result.\<close>

definition buyOpskinsItem :: "OpskinsSearchResult \<Rightarrow> World \<Rightarrow> (exn + OpskinsBuyReturn) \<times> World" where
  "buyOpskinsItem r w =
     (case next_reply (buy_replies w) of
        (res, rest) \<Rightarrow>
          (res, emit (OpskinsBuy (sale_id r) (amount r) (market_name r)) (w\<lparr>buy_replies := rest\<rparr>)))"

definition withdrawOpskinsItems :: "nat list \<Rightarrow> World \<Rightarrow> bool \<times> World" where
  "withdrawOpskinsItems items w =
     (case withdraw_replies w of
        [] \<Rightarrow> (False, emit (OpskinsWithdrawItems items) w)
      | r # rest \<Rightarrow> (r, emit (OpskinsWithdrawItems items) (w\<lparr>withdraw_replies := rest\<rparr>)))"

text \<open>\<open>getUserInventoryAsync\<close> of \<open>utils.ts\<close>.\<close>

definition getUserInventoryAsync :: "nat \<Rightarrow> World \<Rightarrow> (exn + InventoryItem list) \<times> World" where
  "getUserInventoryAsync steamId w =
     (case next_reply (inventory_replies w) of
        (r, rest) \<Rightarrow> (r, emit (SteamGetInventory steamId) (w\<lparr>inventory_replies := rest\<rparr>)))"

definition getUserDetailsAsync :: "World \<Rightarrow> (exn + UserDetailsObject) \<times> World" where
  "getUserDetailsAsync w =
     (case next_reply (details_replies w) of
        (r, rest) \<Rightarrow> (r, emit SteamGetUserDetails (w\<lparr>details_replies := rest\<rparr>)))"

definition sendOfferAsync :: "World \<Rightarrow> (exn + SentOffer) \<times> World" where
  "sendOfferAsync w =
     (case next_reply (send_replies w) of
        (r, rest) \<Rightarrow> (r, emit SteamSendOffer (w\<lparr>send_replies := rest\<rparr>)))"

definition confirmOfferAsync :: "string \<Rightarrow> World \<Rightarrow> (exn + unit) \<times> World" where
  "confirmOfferAsync offerId w =
     (case next_reply (confirm_replies w) of
        (r, rest) \<Rightarrow> (r, emit (SteamConfirmOffer offerId) (w\<lparr>confirm_replies := rest\<rparr>)))"

section \<open>Store access\<close>

text \<open>The result methods of the database library: \<open>one\<close> rejects unless exactly one row
  comes back, \<open>oneOrNone\<close> rejects on more than one row, \<open>many\<close> rejects on no row.\<close>

definition db_one :: "'a list \<Rightarrow> exn + 'a" where
  "db_one rows =
     (case rows of
        [] \<Rightarrow> Inl (Error ''No data returned from the query.'')
      | [r] \<Rightarrow> Inr r
      | _ \<Rightarrow> Inl (Error ''Multiple rows were not expected.''))"

definition db_oneOrNone :: "'a list \<Rightarrow> exn + 'a option" where
  "db_oneOrNone rows =
     (case rows of
        [] \<Rightarrow> Inr None
      | [r] \<Rightarrow> Inr (Some r)
      | _ \<Rightarrow> Inl (Error ''Multiple rows were not expected.''))"

definition db_many :: "'a list \<Rightarrow> exn + 'a list" where
  "db_many rows = (if rows = [] then Inl (Error ''No data returned from the query.'') else Inr rows)"

text \<open>An \<open>UPDATE \<dots> WHERE\<close> on a table: every row that the condition selects is changed.\<close>

definition update_where :: "('a \<Rightarrow> bool) \<Rightarrow> ('a \<Rightarrow> 'a) \<Rightarrow> 'a list \<Rightarrow> 'a list" where
  "update_where cond upd rows = map (\<lambda>r. if cond r then upd r else r) rows"

text \<open>The rows that \<open>RETURNING\<close> hands back: the selected rows after the change.\<close>

definition returning :: "('a \<Rightarrow> bool) \<Rightarrow> ('a \<Rightarrow> 'a) \<Rightarrow> 'a list \<Rightarrow> 'a list" where
  "returning cond upd rows = map upd (filter cond rows)"

definition set_trade_deposits :: "Trade list \<Rightarrow> World \<Rightarrow> World" where
  "set_trade_deposits rows w = w\<lparr>db := (db w)\<lparr>trade_deposits := rows\<rparr>\<rparr>"

definition set_trade_withdrawals :: "Trade list \<Rightarrow> World \<Rightarrow> World" where
  "set_trade_withdrawals rows w = w\<lparr>db := (db w)\<lparr>trade_withdrawals := rows\<rparr>\<rparr>"

definition set_users :: "User list \<Rightarrow> World \<Rightarrow> World" where
  "set_users rows w = w\<lparr>db := (db w)\<lparr>users := rows\<rparr>\<rparr>"

section \<open>\<open>fail\<close>, \<open>failDeposit\<close> and \<open>failWithdrawal\<close> of \<open>utils.ts\<close>\<close>

datatype table = Table_trade_deposits | Table_trade_withdrawals

definition fail :: "table \<Rightarrow> nat \<Rightarrow> exn \<Rightarrow> World \<Rightarrow> World" where
  "fail tbl id' e w =
     (let message = errMessage e;
          upd = (\<lambda>r. r\<lparr>failed_at := Some (now w), failure_details := Some message\<rparr>)
      in case tbl of
           Table_trade_deposits \<Rightarrow>
             set_trade_deposits (update_where (\<lambda>r. trade_id r = id') upd (trade_deposits (db w))) w
         | Table_trade_withdrawals \<Rightarrow>
             set_trade_withdrawals (update_where (\<lambda>r. trade_id r = id') upd (trade_withdrawals (db w))) w)"

definition failDeposit :: "nat \<Rightarrow> exn \<Rightarrow> World \<Rightarrow> World" where
  "failDeposit id' e w = fail Table_trade_deposits id' e w"

definition failWithdrawal :: "nat \<Rightarrow> exn \<Rightarrow> World \<Rightarrow> World" where
  "failWithdrawal id' e w = fail Table_trade_withdrawals id' e w"


section \<open>Text of numbers and of thrown values\<close>

definition digit_char :: "nat \<Rightarrow> char" where
  "digit_char d = ''0123456789'' ! d"

text \<open>The decimal text of a number, as a template literal prints it.\<close>

function string_of_nat :: "nat \<Rightarrow> string" where
  "string_of_nat n =
     (if n < 10 then [digit_char n] else string_of_nat (n div 10) @ [digit_char (n mod 10)])"
  by pat_completeness auto
termination
  by (relation "measure (\<lambda>n. n)") auto

declare string_of_nat.simps [simp del]

text \<open>\<open>e.message\<close> inside a template literal: the message of an \<open>Error\<close>, and
  \<open>undefined\<close> for a value that has no such property.\<close>

fun message_property :: "exn \<Rightarrow> string" where
  "message_property (Error m) = m"
| "message_property e = ''undefined''"

text \<open>\<open>!s\<close> for an optional string: absent or empty.\<close>

definition falsy :: "string option \<Rightarrow> bool" where
  "falsy s = (s = None \<or> s = Some [])"

definition TypeError_steamID :: exn where
  "TypeError_steamID = Error ''Cannot read property 'getSteamID64' of null''"

section \<open>Offer State Reconciler: \<open>completeDeposit\<close> and \<open>completeWithdrawal\<close>\<close>

text \<open>\<open>_currentWithdrawalsItems\<close>: the item names of the open withdrawals of the merchant.\<close>

definition currentWithdrawalsItems :: "nat \<Rightarrow> Db \<Rightarrow> string list" where
  "currentWithdrawalsItems merchantSteamID d =
     concat (map item_names
       (filter (\<lambda>r. merchant_steam_id r = Some merchantSteamID \<and> completed_at r = None
                     \<and> failed_at r = None \<and> cancelled_at r = None)
               (trade_withdrawals d)))"

text \<open>Lines 442 to 451: the inventory without the items of open withdrawals is handed to
  \<open>_listItemsToOpskins\<close>, which is started and not awaited.\<close>

definition list_free_items :: "nat \<Rightarrow> InventoryItem list \<Rightarrow> World \<Rightarrow> outcome \<times> World" where
  "list_free_items merchantSteamID items w =
     (let withdrawalsItems = currentWithdrawalsItems merchantSteamID (db w);
          items' = foldl (\<lambda>items witem. filter (\<lambda>e. item_market_hash_name e \<noteq> witem) items)
                         items withdrawalsItems
      in if items' \<noteq> [] then (Returned, emit (ListItemsToOpskins items') w) else (Returned, w))"

text \<open>The branch \<open>offer.state === TradeOfferState.Accepted\<close> of \<open>completeDeposit\<close>
  (lines 400 to 452).\<close>

definition deposit_accepted :: "Trade \<Rightarrow> World \<Rightarrow> outcome \<times> World" where
  "deposit_accepted deposit w =
     (let w1 = set_users
                 (update_where (\<lambda>u. steam_id u = user_steam_id deposit)
                    (\<lambda>u. u\<lparr>balance := balance u + total deposit + bonus deposit\<rparr>)
                    (users (db w))) w;
          w2 = set_trade_deposits
                 (update_where (\<lambda>r. trade_id r = trade_id deposit)
                    (\<lambda>r. r\<lparr>completed_at := Some (now w1)\<rparr>)
                    (trade_deposits (db w1))) w1
      in case steamID w2 of
           None \<Rightarrow> (Rejected TypeError_steamID, w2)
         | Some merchantSteamID \<Rightarrow>
             (case getUserInventoryAsync merchantSteamID w2 of
                (Inr items, w3) \<Rightarrow> list_free_items merchantSteamID items w3
              | (Inl err, w3) \<Rightarrow>
                  (case getUserInventoryAsync merchantSteamID (reconnectToSteam w3) of
                     (Inr items, w4) \<Rightarrow> list_free_items merchantSteamID items w4
                   | (Inl err2, w4) \<Rightarrow> (Returned, w4))))"

definition completeDeposit :: "TradeOffer \<Rightarrow> TradeOfferState \<Rightarrow> World \<Rightarrow> outcome \<times> World" where
  "completeDeposit offer oldState w =
     (if oldState \<notin> set COMPLETABLE_STATES then (Returned, w)
      else case db_one (filter (\<lambda>r. steam_offer_id r = Some (offer_id offer))
                               (trade_deposits (db w))) of
             Inl e \<Rightarrow> (Rejected e, w)
           | Inr deposit \<Rightarrow>
               if offer_state offer = Countered then
                 (Returned, failDeposit (trade_id deposit)
                    (StringValue ''A counter-offer was made. Counter-offers are not currently accepted.'') w)
               else if offer_state offer = Expired then
                 (Returned, failDeposit (trade_id deposit) (StringValue ''Trade offer expired'') w)
               else if offer_state offer = Cancelled then
                 (Returned, failDeposit (trade_id deposit) (StringValue ''Trade offer cancelled'') w)
               else if offer_state offer = Declined then
                 (Returned, failDeposit (trade_id deposit) (StringValue ''Trade offer declined'') w)
               else if offer_state offer = InvalidItems then
                 (Returned, failDeposit (trade_id deposit)
                    (StringValue ''Trade contained invalid items'') w)
               else if offer_state offer = CanceledBySecondFactor then
                 (Returned, failDeposit (trade_id deposit)
                    (StringValue ''Trade offer cancelled by second factor'') w)
               else if offer_state offer = Accepted then deposit_accepted deposit w
               else (Returned, w))"

definition completeWithdrawal :: "TradeOffer \<Rightarrow> TradeOfferState \<Rightarrow> World \<Rightarrow> outcome \<times> World" where
  "completeWithdrawal offer oldState w =
     (if oldState \<notin> set COMPLETABLE_STATES then (Returned, w)
      else case db_one (filter (\<lambda>r. steam_offer_id r = Some (offer_id offer))
                               (trade_withdrawals (db w))) of
             Inl e \<Rightarrow> (Rejected e, w)
           | Inr withdrawal \<Rightarrow>
               if offer_state offer = Countered then
                 (Returned, failWithdrawal (trade_id withdrawal)
                    (StringValue ''A counter-offer was made. Counter-offers are not currently accepted.'') w)
               else if offer_state offer = Expired then
                 (Returned, failWithdrawal (trade_id withdrawal) (StringValue ''Trade offer expired'') w)
               else if offer_state offer = Cancelled then
                 (Returned, failWithdrawal (trade_id withdrawal) (StringValue ''Trade offer cancelled'') w)
               else if offer_state offer = Declined then
                 (Returned, failWithdrawal (trade_id withdrawal) (StringValue ''Trade offer declined'') w)
               else if offer_state offer = InvalidItems then
                 (Returned, failWithdrawal (trade_id withdrawal)
                    (StringValue ''Trade contained invalid items'') w)
               else if offer_state offer = CanceledBySecondFactor then
                 (Returned, failWithdrawal (trade_id withdrawal)
                    (StringValue ''Trade offer cancelled by second factor'') w)
               else if offer_state offer = Accepted then
                 (Returned, set_trade_withdrawals
                    (update_where (\<lambda>r. trade_id r = trade_id withdrawal)
                       (\<lambda>r. r\<lparr>completed_at := Some (now w)\<rparr>)
                       (trade_withdrawals (db w))) w)
               else (Returned, w))"

section \<open>Deposit workflow: \<open>_fetchInventoryItems\<close> and \<open>startDeposit\<close>\<close>

text \<open>Lines 939 to 949: the check that every requested asset was found.\<close>

definition all_requested_present ::
  "string list \<Rightarrow> InventoryItem list \<Rightarrow> World \<Rightarrow> (exn + InventoryItem list) \<times> World" where
  "all_requested_present assetIds items w =
     (if length items \<noteq> length assetIds
      then (Inl (Error ''One or more requested items do not exist in inventory''), w)
      else (Inr items, w))"

text \<open>\<open>_fetchInventoryItems(steamId, assetIds, log, retry)\<close>. In the \<open>catch\<close> block the
  retry is awaited and its value is dropped: \<open>items\<close> is still the empty array when the
  check of line 939 runs. A retry that throws leaves the \<open>catch\<close> block with its error.\<close>

function fetchInventoryItems ::
  "nat \<Rightarrow> string list \<Rightarrow> bool \<Rightarrow> World \<Rightarrow> (exn + InventoryItem list) \<times> World" where
  "fetchInventoryItems steamId assetIds retry w =
     (case getUserInventoryAsync steamId w of
        (Inr inventory, w1) \<Rightarrow>
          all_requested_present assetIds (filter (\<lambda>item. assetid item \<in> set assetIds) inventory) w1
      | (Inl e, w1) \<Rightarrow>
          (if \<not> retry then (Inl e, reconnectToSteam w1)
           else case fetchInventoryItems steamId assetIds False (reconnectToSteam w1) of
                  (Inl e2, w2) \<Rightarrow> (Inl e2, w2)
                | (Inr dropped, w2) \<Rightarrow> all_requested_present assetIds [] w2))"
  by pat_completeness auto
termination
  by (relation "measure (\<lambda>(steamId, assetIds, retry, w). if retry then 1 else 0)") auto

declare fetchInventoryItems.simps [simp del]

text \<open>The claim of a deposit (lines 206 to 212): one conditional update that returns the
  rows it changed.\<close>

definition deposit_unclaimed :: "nat \<Rightarrow> nat \<Rightarrow> Trade \<Rightarrow> bool" where
  "deposit_unclaimed depositId appId r =
     (trade_id r = depositId \<and> trade_app_id r = appId \<and> acknowledged_at r = None)"

definition acknowledge :: "nat \<Rightarrow> nat \<Rightarrow> Trade \<Rightarrow> Trade" where
  "acknowledge merchantSteamID t r = r\<lparr>acknowledged_at := Some t, merchant_steam_id := Some merchantSteamID\<rparr>"

definition claim_deposit_rows ::
  "nat \<Rightarrow> nat \<Rightarrow> nat \<Rightarrow> nat \<Rightarrow> Trade list \<Rightarrow> (exn + Trade option) \<times> Trade list" where
  "claim_deposit_rows merchantSteamID depositId appId t rows =
     (let cond = deposit_unclaimed depositId appId;
          upd = acknowledge merchantSteamID t
      in (db_oneOrNone (returning cond upd rows), update_where cond upd rows))"

definition claim_deposit :: "nat \<Rightarrow> nat \<Rightarrow> World \<Rightarrow> (exn + Trade option) \<times> World" where
  "claim_deposit merchantSteamID depositId w =
     (case claim_deposit_rows merchantSteamID depositId (app_id (config w)) (now w)
             (trade_deposits (db w)) of
        (res, rows) \<Rightarrow> (res, set_trade_deposits rows w))"

text \<open>The two attempts at the profile of the other party, with a new session in between
  (lines 265 to 281 and 507 to 524).\<close>

definition getUserDetails_retry :: "World \<Rightarrow> (exn + UserDetailsObject) \<times> World" where
  "getUserDetails_retry w =
     (case getUserDetailsAsync w of
        (Inr userDetails, w1) \<Rightarrow> (Inr userDetails, w1)
      | (Inl e, w1) \<Rightarrow> getUserDetailsAsync (reconnectToSteam w1))"

text \<open>Lines 260 to 318 of \<open>startDeposit\<close>: the offer for the validated items.\<close>

definition deposit_offer :: "Trade \<Rightarrow> string \<Rightarrow> InventoryItem list \<Rightarrow> World \<Rightarrow> outcome \<times> World" where
  "deposit_offer deposit url theirItems w =
     (case getUserDetails_retry (emit (SteamCreateOffer url) w) of
        (Inl e, w1) \<Rightarrow>
          (Returned, failDeposit (trade_id deposit)
             (StringValue (''We were unable to retrieve your details. Please try creating a new deposit. Error: ''
                           @ message_property e)) w1)
      | (Inr userDetails, w1) \<Rightarrow>
          if them_probation userDetails then
            (Returned, failDeposit (trade_id deposit)
               (StringValue ''You are not currently able to trade. Please consult your Steam profile for more information.'') w1)
          else if them_escrowDays userDetails \<noteq> 0 then
            (Returned, failDeposit (trade_id deposit)
               (StringValue (''Please enable mobile authenticator and wait for ''
                             @ string_of_nat (them_escrowDays userDetails) @ '' days.'')) w1)
          else
            (case sendOfferAsync (emit (SteamAddTheirItems theirItems) w1) of
               (Inr sent, w2) \<Rightarrow>
                 (Returned, set_trade_deposits
                    (update_where (\<lambda>r. trade_id r = trade_id deposit)
                       (\<lambda>r. r\<lparr>offered_at := Some (sent_created sent),
                              steam_offer_id := Some (sent_id sent)\<rparr>)
                       (trade_deposits (db w2))) w2)
             | (Inl e, w2) \<Rightarrow> (Returned, failDeposit (trade_id deposit) e w2)))"

definition startDeposit :: "nat \<Rightarrow> World \<Rightarrow> outcome \<times> World" where
  "startDeposit depositId w =
     (case steamID w of
        None \<Rightarrow> (Returned, w)
      | Some merchantSteamID \<Rightarrow>
          (case claim_deposit merchantSteamID depositId w of
             (Inl e, w1) \<Rightarrow> (Rejected e, w1)
           | (Inr None, w1) \<Rightarrow> (Returned, w1)
           | (Inr (Some deposit), w1) \<Rightarrow>
               (case db_one (filter (\<lambda>u. steam_id u = user_steam_id deposit) (users (db w1))) of
                  Inl e \<Rightarrow> (Rejected e, w1)
                | Inr user \<Rightarrow>
                    if falsy (trade_link_url user) then
                      (Returned, failDeposit (trade_id deposit)
                         (StringValue ''Please set your Trade URL to proceed'') w1)
                    else
                      (case db_many (filter (\<lambda>i. trade_deposit_id i = depositId)
                                            (trade_deposit_items (db w1))) of
                         Inl e \<Rightarrow> (Rejected e, w1)
                       | Inr depositItems \<Rightarrow>
                           (case fetchInventoryItems (user_steam_id deposit)
                                   (map deposit_steam_asset_id depositItems) True w1 of
                              (Inl e, w2) \<Rightarrow> (Returned, failDeposit (trade_id deposit) e w2)
                            | (Inr theirItems, w2) \<Rightarrow>
                                deposit_offer deposit (the (trade_link_url user)) theirItems w2)))))"


section \<open>Transaction Claimer for withdrawals: \<open>_lockWithdrawal\<close>\<close>

text \<open>The condition of the update of line 1275: the row of the id, still owned by the
  sentinel merchant \<open>1\<close>, of this application, with a total that the marketplace balance
  covers.\<close>

definition withdrawal_lockable :: "nat \<Rightarrow> int \<Rightarrow> nat \<Rightarrow> Trade \<Rightarrow> bool" where
  "withdrawal_lockable withdrawalId balance' appId r =
     (trade_id r = withdrawalId \<and> merchant_steam_id r = Some 1 \<and> total r \<le> balance'
      \<and> trade_app_id r = appId)"

text \<open>The promise resolves \<open>false\<close> when the balance cannot be read or the update returns
  no row of the id, and \<open>true\<close> otherwise. \<open>oneOrNone\<close> rejecting inside the callback
  leaves the promise unsettled.\<close>

definition lockWithdrawal :: "nat \<Rightarrow> nat \<Rightarrow> World \<Rightarrow> bool settled \<times> World" where
  "lockWithdrawal withdrawalId merchantSteamID w =
     (case opskins_getBalance w of
        (Inl err, w1) \<Rightarrow> (Resolved False, w1)
      | (Inr balance', w1) \<Rightarrow>
          (let rows = trade_withdrawals (db w1);
               cond = withdrawal_lockable withdrawalId balance' (app_id (config w1));
               upd = (\<lambda>r. r\<lparr>merchant_steam_id := Some merchantSteamID\<rparr>);
               w2 = set_trade_withdrawals (update_where cond upd rows) w1
           in case db_oneOrNone (map trade_id (returning cond upd rows)) of
                Inl e \<Rightarrow> (Pending, w2)
              | Inr None \<Rightarrow> (Resolved False, w2)
              | Inr (Some tradeId) \<Rightarrow>
                  if tradeId \<noteq> withdrawalId then (Resolved False, w2) else (Resolved True, w2)))"

section \<open>Marketplace Bridge: \<open>_buyPlaceholderItems\<close>\<close>

definition RPM :: nat where
  "RPM = 20"

text \<open>\<open>xs[i]\<close>, which is \<open>undefined\<close> (here \<open>None\<close>) out of range, and the property
  name that an \<open>undefined\<close> key stands for.\<close>

definition nth_opt :: "'a list \<Rightarrow> nat \<Rightarrow> 'a option" where
  "nth_opt xs i = (if i < length xs then Some (xs ! i) else None)"

definition js_key :: "string option \<Rightarrow> string" where
  "js_key item = (case item of None \<Rightarrow> ''undefined'' | Some name \<Rightarrow> name)"

text \<open>Lines 732 to 752: up to three searches, with pauses of 1 and 2 between them.
  \<open>None\<close> is the \<open>continue\<close> after the third failure.\<close>

definition search_with_retries :: "string option \<Rightarrow> World \<Rightarrow> OpskinsSearchResult list option \<times> World" where
  "search_with_retries item w =
     (case searchOpskins (js_key item) w of
        (Inr results, w1) \<Rightarrow> (Some results, w1)
      | (Inl err, w1) \<Rightarrow>
          (case searchOpskins (js_key item) (waitAsync 1 w1) of
             (Inr results, w2) \<Rightarrow> (Some results, w2)
           | (Inl err, w2) \<Rightarrow>
               (case searchOpskins (js_key item) (waitAsync 2 w2) of
                  (Inr results, w3) \<Rightarrow> (Some results, w3)
                | (Inl err, w3) \<Rightarrow> (None, w3))))"

text \<open>The guard of line 754 on the cheapest listing \<open>results[0]\<close>. Both operands are the
  field \<open>amount\<close>, the price of the listing: the same field is compared with the balance
  and passed to the purchase as its total.\<close>

definition too_expensive :: "OpskinsSearchResult \<Rightarrow> int \<Rightarrow> bool" where
  "too_expensive r safe_price =
     (amount r \<ge> 4 * 100 \<and> of_int (amount r) \<ge> of_int safe_price * (105 / 100 :: rat))"

text \<open>The condition under which a listing is bought (lines 760, 770 and 780).\<close>

definition affordable :: "string option \<Rightarrow> int \<Rightarrow> OpskinsSearchResult \<Rightarrow> bool" where
  "affordable item balance' r = (balance' \<ge> amount r \<and> Some (market_name r) = item)"

text \<open>Lines 760 to 792: the cheapest listing, then the second when that purchase throws,
  then the third when the second purchase throws.\<close>

definition buy_with_fallback ::
  "string option \<Rightarrow> OpskinsSearchResult list \<Rightarrow> int \<Rightarrow> World \<Rightarrow> OpskinsBuyReturn option \<times> World" where
  "buy_with_fallback item results balance' w =
     (if results \<noteq> [] \<and> affordable item balance' (results ! 0) then
        case buyOpskinsItem (results ! 0) w of
          (Inr result, w1) \<Rightarrow> (Some result, w1)
        | (Inl err, w1) \<Rightarrow>
            if length results \<ge> 2 \<and> affordable item balance' (results ! 1) then
              case buyOpskinsItem (results ! 1) w1 of
                (Inr result, w2) \<Rightarrow> (Some result, w2)
              | (Inl err, w2) \<Rightarrow>
                  if length results \<ge> 3 \<and> affordable item balance' (results ! 2) then
                    case buyOpskinsItem (results ! 2) w2 of
                      (Inr result, w3) \<Rightarrow> (Some result, w3)
                    | (Inl err, w3) \<Rightarrow> (None, w3)
                  else (None, w2)
            else (None, w1)
      else (None, w))"

text \<open>How the loop of line 723 ends: it runs to its end with the purchases made, it
  resolves the promise with the empty array and returns, or it throws.\<close>

datatype loop_result = Finished "nat list" | ResolvedEmpty | Thrown exn

definition TypeError_amount :: exn where
  "TypeError_amount = Error ''Cannot read property 'amount' of undefined''"

text \<open>The loop \<open>for (i = 0; i < withdrawalItems.length && searches < RPM * 4; i++)\<close>
  from the state \<open>(i, searches, purchases, balance)\<close>; \<open>n\<close> is \<open>withdrawalItems.length\<close>
  and \<open>names\<close> is \<open>withdrawal._item_names\<close>. \<open>results[0].amount\<close> on an empty result
  throws before the check \<open>results.length\<close> of line 760.\<close>

function buy_loop ::
  "nat \<Rightarrow> string list \<Rightarrow> DbItemPrices \<Rightarrow> nat \<Rightarrow> nat \<Rightarrow> nat list \<Rightarrow> int \<Rightarrow> World
     \<Rightarrow> loop_result \<times> World" where
  "buy_loop n names spPriceData i searches purchases balance' w =
     (if i < n \<and> searches < RPM * 4 then
        (let item = nth_opt names i in
         case spPriceData (js_key item) of
           None \<Rightarrow> (ResolvedEmpty, w)
         | Some safe_price \<Rightarrow>
             (case search_with_retries item w of
                (None, w1) \<Rightarrow> buy_loop n names spPriceData (i + 1) searches purchases balance' w1
              | (Some results, w1) \<Rightarrow>
                  (case results of
                     [] \<Rightarrow> (Thrown TypeError_amount, w1)
                   | r0 # rest \<Rightarrow>
                       if too_expensive r0 safe_price then (ResolvedEmpty, w1)
                       else
                         (case buy_with_fallback item results balance' w1 of
                            (None, w2) \<Rightarrow>
                              buy_loop n names spPriceData (i + 1) (searches + 1) purchases balance'
                                (if searches + 1 = RPM then waitAsync 60 w2 else w2)
                          | (Some result, w2) \<Rightarrow>
                              buy_loop n names spPriceData (i + 1) (searches + 1)
                                (purchases @ [new_itemid result]) (new_balance result)
                                (if searches + 1 = RPM then waitAsync 60 w2 else w2)))))
      else (Finished purchases, w))"
  by pat_completeness auto
termination
  by (relation "measure (\<lambda>(n, names, spPriceData, i, searches, purchases, balance', w). n - i)") auto

declare buy_loop.simps [simp del]

text \<open>Lines 801 to 809: up to three attempts to withdraw the purchases to Steam.\<close>

definition withdraw_with_retries :: "nat list \<Rightarrow> World \<Rightarrow> bool \<times> World" where
  "withdraw_with_retries purchases w =
     (case withdrawOpskinsItems purchases w of
        (True, w1) \<Rightarrow> (True, w1)
      | (False, w1) \<Rightarrow>
          (case withdrawOpskinsItems purchases (waitAsync 2 w1) of
             (True, w2) \<Rightarrow> (True, w2)
           | (False, w2) \<Rightarrow> withdrawOpskinsItems purchases (waitAsync 2 w2)))"

text \<open>Lines 814 to 823 (and 829 to 838): the inventory of the merchant, fetched again
  after a new session when the first fetch throws; the second fetch is not guarded.\<close>

definition inventory_with_retry :: "nat \<Rightarrow> World \<Rightarrow> (exn + InventoryItem list) \<times> World" where
  "inventory_with_retry merchantSteamID w =
     (case getUserInventoryAsync merchantSteamID w of
        (Inr items, w1) \<Rightarrow> (Inr items, w1)
      | (Inl e, w1) \<Rightarrow> getUserInventoryAsync merchantSteamID (reconnectToSteam w1))"

text \<open>Lines 841 to 849: an inventory item whose name is still among the names is kept,
  and every occurrence of its name is taken out of \<open>withdrawal._item_names\<close>.\<close>

fun filter_by_names ::
  "string list \<Rightarrow> InventoryItem list \<Rightarrow> InventoryItem list \<Rightarrow> InventoryItem list \<times> string list" where
  "filter_by_names names [] itemsfiltred = (itemsfiltred, names)"
| "filter_by_names names (item # items) itemsfiltred =
     (if item_market_hash_name item \<in> set names
      then filter_by_names (filter (\<lambda>name. name \<noteq> item_market_hash_name item) names) items
             (itemsfiltred @ [item])
      else filter_by_names names items itemsfiltred)"

text \<open>Lines 799 to 858, entered when every requested item was purchased: the import of
  the purchases into the Steam inventory. The result is the settled value of the promise
  and \<open>withdrawal._item_names\<close> as the routine leaves it.\<close>

definition import_purchases ::
  "nat \<Rightarrow> string list \<Rightarrow> nat list \<Rightarrow> nat \<Rightarrow> World
     \<Rightarrow> (InventoryItem list settled \<times> string list) \<times> World" where
  "import_purchases n names purchases merchantSteamID w =
     (case withdraw_with_retries purchases w of
        (success, w1) \<Rightarrow>
          (case inventory_with_retry merchantSteamID (waitAsync 2 w1) of
             (Inl e, w2) \<Rightarrow> ((Pending, names), w2)
           | (Inr items, w2) \<Rightarrow>
               (case (if items = []
                      then (case withdrawOpskinsItems purchases (waitAsync 2 w2) of
                              (again, w3) \<Rightarrow> inventory_with_retry merchantSteamID w3)
                      else (Inr items, w2)) of
                  (Inl e, w4) \<Rightarrow> ((Pending, names), w4)
                | (Inr items', w4) \<Rightarrow>
                    (case filter_by_names names items' [] of
                       (itemsfiltred, names') \<Rightarrow>
                         if itemsfiltred = [] \<or> n \<noteq> length itemsfiltred
                         then ((Resolved [], names'), w4)
                         else ((Resolved itemsfiltred, names'), w4)))))"

text \<open>\<open>_buyPlaceholderItems(withdrawalItems, withdrawalId, withdrawal, merchantSteamID, log)\<close>;
  \<open>n\<close> is \<open>withdrawalItems.length\<close> and \<open>names\<close> is \<open>withdrawal._item_names\<close>.\<close>

definition buyPlaceholderItems ::
  "nat \<Rightarrow> string list \<Rightarrow> nat \<Rightarrow> World \<Rightarrow> (InventoryItem list settled \<times> string list) \<times> World" where
  "buyPlaceholderItems n names merchantSteamID w =
     (if opskins_key (config w) = [] then ((Resolved [], names), w)
      else case opskins_getBalance w of
             (Inl err, w1) \<Rightarrow> ((Resolved [], names), w1)
           | (Inr balance', w1) \<Rightarrow>
               (case getDbCentPrices 0 10000 (db w1) of
                  None \<Rightarrow> ((Resolved [], names), w1)
                | Some spPriceData \<Rightarrow>
                    (case buy_loop n names spPriceData 0 0 [] balance' w1 of
                       (ResolvedEmpty, w2) \<Rightarrow> ((Resolved [], names), w2)
                     | (Thrown e, w2) \<Rightarrow> ((Pending, names), w2)
                     | (Finished purchases, w2) \<Rightarrow>
                         if purchases \<noteq> [] \<and> n = length purchases
                         then import_purchases n names purchases merchantSteamID w2
                         else ((Resolved [], names), w2))))"

section \<open>Withdrawal workflow: \<open>startWithdrawal\<close>\<close>

text \<open>Lines 587 to 604: the offer with the sourced items, its confirmation, and the
  record of the offer or of the failure.\<close>

definition withdrawal_offer :: "Trade \<Rightarrow> InventoryItem list \<Rightarrow> World \<Rightarrow> outcome \<times> World" where
  "withdrawal_offer withdrawal myItems w =
     (case sendOfferAsync (emit (SteamAddMyItems myItems) w) of
        (Inl e, w1) \<Rightarrow> (Returned, failWithdrawal (trade_id withdrawal) e w1)
      | (Inr sent, w1) \<Rightarrow>
          (case confirmOfferAsync (sent_id sent) w1 of
             (Inl e, w2) \<Rightarrow> (Returned, failWithdrawal (trade_id withdrawal) e w2)
           | (Inr u, w2) \<Rightarrow>
               (Returned, set_trade_withdrawals
                  (update_where (\<lambda>r. trade_id r = trade_id withdrawal)
                     (\<lambda>r. r\<lparr>offered_at := Some (sent_created sent),
                            steam_offer_id := Some (sent_id sent)\<rparr>)
                     (trade_withdrawals (db w2))) w2)))"

text \<open>Lines 546 to 585: the checks on the requested items, the sourcing, and what follows
  an empty result of the sourcing.\<close>

definition withdrawal_items :: "nat \<Rightarrow> nat \<Rightarrow> Trade \<Rightarrow> World \<Rightarrow> outcome \<times> World" where
  "withdrawal_items withdrawalId merchantSteamID withdrawal w =
     (case db_many (filter (\<lambda>i. trade_withdrawal_id i = withdrawalId)
                           (trade_withdrawal_items (db w))) of
        Inl e \<Rightarrow> (Rejected e, w)
      | Inr withdrawalItems \<Rightarrow>
          if withdrawalItems = [] then
            (Returned, failWithdrawal (trade_id withdrawal)
               (StringValue ''Could not retrieve the items. Please try again later.'') w)
          else if length withdrawalItems > MAX_WITHDRAWAL_SIZE then
            (Returned, failWithdrawal (trade_id withdrawal)
               (StringValue (''Please choose a maximum of '' @ string_of_nat MAX_WITHDRAWAL_SIZE
                             @ '' items.'')) w)
          else
            (case buyPlaceholderItems (length withdrawalItems) (item_names withdrawal)
                    merchantSteamID w of
               ((Pending, names'), w1) \<Rightarrow> (NeverSettles, w1)
             | ((Resolved myItems, names'), w1) \<Rightarrow>
                 if myItems = [] then
                   (Returned,
                    emit (ListAgainItems names')
                      (emit (OpskinsCheckUserInventory names')
                         (failWithdrawal (trade_id withdrawal)
                            (StringValue ''Failed to complete withdrawal, please try again later.'') w1)))
                 else withdrawal_offer withdrawal myItems w1))"

text \<open>Lines 484 to 544: the user, the trade link and the profile of the other party.\<close>

definition withdrawal_checks :: "nat \<Rightarrow> nat \<Rightarrow> Trade \<Rightarrow> World \<Rightarrow> outcome \<times> World" where
  "withdrawal_checks withdrawalId merchantSteamID withdrawal w =
     (case db_one (filter (\<lambda>u. steam_id u = user_steam_id withdrawal) (users (db w))) of
        Inl e \<Rightarrow> (Rejected e, w)
      | Inr user \<Rightarrow>
          if falsy (trade_link_url user) then
            (Returned, failWithdrawal (trade_id withdrawal)
               (StringValue ''Please set your Trade URL to proceed'') w)
          else
            (case getUserDetails_retry (emit (SteamCreateOffer (the (trade_link_url user))) w) of
               (Inl e, w1) \<Rightarrow>
                 (Returned, failWithdrawal (trade_id withdrawal)
                    (StringValue (''You are not currently able to trade. Please consult your Steam profile for more information. Error: ''
                                  @ message_property e)) w1)
             | (Inr userDetails, w1) \<Rightarrow>
                 if them_probation userDetails then
                   (Returned, failWithdrawal (trade_id withdrawal)
                      (StringValue ''You are not currently able to trade. Please consult your Steam profile for more information.'') w1)
                 else if them_escrowDays userDetails \<noteq> 0 then
                   (Returned, failWithdrawal (trade_id withdrawal)
                      (StringValue (''You are currently subject to a trade hold for ''
                                    @ string_of_nat (them_escrowDays userDetails) @ '' days.'')) w1)
                 else withdrawal_items withdrawalId merchantSteamID withdrawal w1))"

definition startWithdrawal :: "nat \<Rightarrow> World \<Rightarrow> outcome \<times> World" where
  "startWithdrawal withdrawalId w =
     (case steamID w of
        None \<Rightarrow> (Returned, w)
      | Some merchantSteamID \<Rightarrow>
          (case lockWithdrawal withdrawalId merchantSteamID w of
             (Pending, w1) \<Rightarrow> (NeverSettles, w1)
           | (Resolved locked, w1) \<Rightarrow>
               if \<not> locked then (Returned, w1)
               else
                 (case db_oneOrNone
                         (filter (\<lambda>r. trade_id r = withdrawalId
                                       \<and> merchant_steam_id r = Some merchantSteamID)
                                 (trade_withdrawals (db w1))) of
                    Inl e \<Rightarrow> (Rejected e, w1)
                  | Inr None \<Rightarrow> (Returned, w1)
                  | Inr (Some withdrawal) \<Rightarrow>
                      withdrawal_checks withdrawalId merchantSteamID withdrawal w1)))"

section \<open>Marketplace Bridge: \<open>_listItemsToOpskins\<close>\<close>

text \<open>The callback that \<open>_listItemsToOpskins\<close> passes to \<open>getListingLimit\<close>, applied to the
  reply \<open>(errll, liimt)\<close>. It is an \<open>async\<close> function, so a value thrown by the pricing loop
  rejects the promise of this callback, and \<open>_listItems\<close> is not reached.\<close>

definition listing_limit_callback ::
  "InventoryItem list \<Rightarrow> OpskinsPriceData \<Rightarrow> exn + int \<Rightarrow> World \<Rightarrow> outcome \<times> World" where
  "listing_limit_callback items opPriceData reply w2 =
     (case reply of
        Inl errll \<Rightarrow> (Returned, w2)
      | Inr liimt \<Rightarrow>
          if liimt \<le> 0 then (Returned, w2)
          else
            (case getDbCentPrices 0 10000 (db w2) of
               None \<Rightarrow> (Returned, w2)
             | Some spPriceData \<Rightarrow>
                 (case list_loop (config w2) opPriceData spPriceData liimt items [] of
                    Inl e \<Rightarrow> (Rejected e, w2)
                  | Inr listItems \<Rightarrow>
                      if listItems \<noteq> [] then (Returned, emit (OpskinsListItems listItems) w2)
                      else (Returned, w2))))"

text \<open>The end of a run of \<open>_listItemsToOpskins\<close>. The routine awaits nothing: it calls
  \<open>getLowestPrices\<close> with a callback and returns, so its own promise (\<open>routine_promise\<close>) is
  fulfilled whatever the callbacks do. \<open>getListingLimit\<close> drops the promise of its callback;
  a rejection of that promise is handled by nobody (\<open>unhandled_rejection\<close>).\<close>

record ListingRun =
  routine_promise :: outcome
  unhandled_rejection :: "exn option"

fun rejection :: "outcome \<Rightarrow> exn option" where
  "rejection (Rejected e) = Some e"
| "rejection Returned = None"
| "rejection NeverSettles = None"

definition listItemsToOpskins :: "InventoryItem list \<Rightarrow> World \<Rightarrow> ListingRun \<times> World" where
  "listItemsToOpskins items w =
     (case opskins_getLowestPrices w of
        (Inl err, w1) \<Rightarrow> (\<lparr>routine_promise = Returned, unhandled_rejection = None\<rparr>, w1)
      | (Inr opPriceData, w1) \<Rightarrow>
          (case opskins_getListingLimit w1 of
             (reply, w2) \<Rightarrow>
               (case listing_limit_callback items opPriceData reply w2 of
                  (callback_promise, w3) \<Rightarrow>
                    (\<lparr>routine_promise = Returned,
                      unhandled_rejection = rejection callback_promise\<rparr>, w3))))"

section \<open>The anti-manipulation guard in the words of the specification\<close>

text \<open>The specification states the guard of the purchase on two quantities of the
  cheapest listing: its price exceeds 1.05 times the cached safe price, and its available
  quantity is at least 400.\<close>

definition spec_purchase_forbidden :: "int \<Rightarrow> int \<Rightarrow> int \<Rightarrow> bool" where
  "spec_purchase_forbidden listing_price' available_quantity safe_price =
     (of_int listing_price' > (105 / 100 :: rat) * of_int safe_price \<and> available_quantity \<ge> 400)"

section \<open>Predicates on the store\<close>

text \<open>A trade has a time of failure exactly when it has failure details.\<close>

definition failure_paired :: "Trade \<Rightarrow> bool" where
  "failure_paired r = ((failed_at r = None) = (failure_details r = None))"

definition failures_paired :: "Db \<Rightarrow> bool" where
  "failures_paired d = (list_all failure_paired (trade_deposits d)
                          \<and> list_all failure_paired (trade_withdrawals d))"

section \<open>Competing merchants\<close>

text \<open>Several merchant processes receive the notification of one deposit and each runs
  the claiming statement on the shared table. The store runs each statement atomically, so
  the statements take effect one after the other in some order: \<open>claim_race\<close> runs the
  attempts \<open>(merchant, time)\<close> in the order of the list, for one deposit id and one
  application, and collects what each attempt gets back.\<close>

fun claim_race ::
  "(nat \<times> nat) list \<Rightarrow> nat \<Rightarrow> nat \<Rightarrow> Trade list \<Rightarrow> (exn + Trade option) list" where
  "claim_race [] depositId appId rows = []"
| "claim_race ((merchantSteamID, t) # attempts) depositId appId rows =
     (case claim_deposit_rows merchantSteamID depositId appId t rows of
        (res, rows') \<Rightarrow> res # claim_race attempts depositId appId rows')"

text \<open>An attempt succeeds when it gets a row back.\<close>

fun claimed :: "exn + Trade option \<Rightarrow> bool" where
  "claimed (Inr (Some row)) = True"
| "claimed res = False"

text \<open>The marketplace calls among the calls made so far.\<close>

definition marketplace_calls :: "World \<Rightarrow> event list" where
  "marketplace_calls w = filter marketplace_call (trace w)"

text \<open>The purchases among the events.\<close>

fun is_purchase :: "event \<Rightarrow> bool" where
  "is_purchase (OpskinsBuy i t n) = True"
| "is_purchase e = False"

section \<open>Example data\<close>

text \<open>Concrete configurations, rows and worlds on which the theorems below are
  evaluated.\<close>

definition cfg0 :: Config where
  "cfg0 = \<lparr> opskins_key = ''key'', identity_secret = ''secret'', app_id = 730, context_id = 2 \<rparr>"

definition item_ak :: InventoryItem where
  "item_ak = \<lparr> assetid = ''9001'', item_market_hash_name = ''AK-47'' \<rparr>"

definition user42 :: User where
  "user42 = \<lparr> steam_id = 42, trade_link_url = Some ''https://trade.example/42'', balance = 200 \<rparr>"

text \<open>A deposit that merchant 7 has claimed and offered as offer \<open>offer-1\<close>.\<close>

definition deposit31 :: Trade where
  "deposit31 = \<lparr> trade_id = 31, trade_app_id = 730, user_steam_id = 42, item_names = [''AK-47''],
       merchant_steam_id = Some 7, acknowledged_at = Some 5, offered_at = Some 6,
       steam_offer_id = Some ''offer-1'', completed_at = None, failed_at = None,
       failure_details = None, cancelled_at = None, total = 1000, bonus = 50 \<rparr>"

definition db_deposit31 :: Db where
  "db_deposit31 = \<lparr> trade_deposits = [deposit31], trade_withdrawals = [], users = [user42],
       trade_deposit_items = [\<lparr> trade_deposit_id = 31, deposit_steam_asset_id = ''9001'' \<rparr>],
       trade_withdrawal_items = [],
       steam_item_price_cache =
         [\<lparr> market_hash_name = ''AK-47'', base_price_usd = 1, blacklisted = False \<rparr>] \<rparr>"

text \<open>The world of merchant 7 at time 10 over a store, with no answers of the
  collaborators yet.\<close>

definition world_of :: "Db \<Rightarrow> World" where
  "world_of d = \<lparr> db = d, config = cfg0, steamID = Some 7, now = 10, trace = [],
       balance_replies = [], search_replies = [], buy_replies = [], withdraw_replies = [],
       lowest_prices_replies = [], listing_limit_replies = [], inventory_replies = [],
       details_replies = [], send_replies = [], confirm_replies = [] \<rparr>"

definition offer1 :: "TradeOfferState \<Rightarrow> TradeOffer" where
  "offer1 st = \<lparr> offer_id = ''offer-1'', offer_state = st \<rparr>"

text \<open>The offer of deposit 31 is declined; the event is handled at time 10, and the same
  event is delivered and handled once more at time 20.\<close>

definition world_declined :: World where
  "world_declined = snd (completeDeposit (offer1 Declined) Active (world_of db_deposit31))"

definition world_declined_again :: World where
  "world_declined_again
     = snd (completeDeposit (offer1 Declined) Active (world_declined\<lparr>now := 20\<rparr>))"

text \<open>The offer of deposit 31 is accepted; the completion event, with prior state
  \<open>Active\<close>, is handled, and the same event is delivered and handled once more.\<close>

definition world_accepted :: World where
  "world_accepted = snd (completeDeposit (offer1 Accepted) Active (world_of db_deposit31))"

definition world_accepted_again :: World where
  "world_accepted_again = snd (completeDeposit (offer1 Accepted) Active world_accepted)"

text \<open>A deposit of user 42 that no merchant has yet acknowledged, and the world of
  merchant 7 in which the first fetch of the inventory of the user fails on a stale
  session and the second fetch returns the requested asset.\<close>

definition deposit30 :: Trade where
  "deposit30 = \<lparr> trade_id = 30, trade_app_id = 730, user_steam_id = 42, item_names = [''AK-47''],
       merchant_steam_id = None, acknowledged_at = None, offered_at = None,
       steam_offer_id = None, completed_at = None, failed_at = None,
       failure_details = None, cancelled_at = None, total = 1000, bonus = 50 \<rparr>"

definition db_deposit30 :: Db where
  "db_deposit30 = \<lparr> trade_deposits = [deposit30], trade_withdrawals = [], users = [user42],
       trade_deposit_items = [\<lparr> trade_deposit_id = 30, deposit_steam_asset_id = ''9001'' \<rparr>],
       trade_withdrawal_items = [],
       steam_item_price_cache =
         [\<lparr> market_hash_name = ''AK-47'', base_price_usd = 1, blacklisted = False \<rparr>] \<rparr>"

definition world_stale_session :: World where
  "world_stale_session =
     (world_of db_deposit30)\<lparr>inventory_replies := [Inl (Error ''Not Logged In''), Inr [item_ak]]\<rparr>"

text \<open>A withdrawal of user 42 for one item, total 500, still owned by the sentinel
  merchant \<open>1\<close>; the cached safe price of the item is 100 minor units. In
  \<open>world_poor\<close> the marketplace balance is 400, in \<open>world_rich\<close> it is 1000.\<close>

definition withdrawal32 :: Trade where
  "withdrawal32 = \<lparr> trade_id = 32, trade_app_id = 730, user_steam_id = 42, item_names = [''AK-47''],
       merchant_steam_id = Some 1, acknowledged_at = None, offered_at = None,
       steam_offer_id = None, completed_at = None, failed_at = None,
       failure_details = None, cancelled_at = None, total = 500, bonus = 0 \<rparr>"

definition db_withdrawal32 :: Db where
  "db_withdrawal32 = \<lparr> trade_deposits = [], trade_withdrawals = [withdrawal32], users = [user42],
       trade_deposit_items = [],
       trade_withdrawal_items = [\<lparr> trade_withdrawal_id = 32, withdrawal_steam_asset_id = [] \<rparr>],
       steam_item_price_cache =
         [\<lparr> market_hash_name = ''AK-47'', base_price_usd = 1, blacklisted = False \<rparr>] \<rparr>"

definition world_poor :: World where
  "world_poor = (world_of db_withdrawal32)\<lparr>balance_replies := [Inr 400]\<rparr>"

definition world_rich :: World where
  "world_rich = (world_of db_withdrawal32)\<lparr>balance_replies := [Inr 1000]\<rparr>"

text \<open>A withdrawal of four items, one more than the maximum, for user 42 and for a user
  without a trade link; the profile of the other party shows no restriction.\<close>

definition user43 :: User where
  "user43 = \<lparr> steam_id = 43, trade_link_url = None, balance = 0 \<rparr>"

definition withdrawal33 :: "nat \<Rightarrow> Trade" where
  "withdrawal33 u = \<lparr> trade_id = 33, trade_app_id = 730, user_steam_id = u,
       item_names = [''AK-47'', ''AK-47'', ''AK-47'', ''AK-47''],
       merchant_steam_id = Some 1, acknowledged_at = None, offered_at = None,
       steam_offer_id = None, completed_at = None, failed_at = None,
       failure_details = None, cancelled_at = None, total = 500, bonus = 0 \<rparr>"

definition db_withdrawal33 :: "nat \<Rightarrow> Db" where
  "db_withdrawal33 u = \<lparr> trade_deposits = [], trade_withdrawals = [withdrawal33 u],
       users = [user42, user43], trade_deposit_items = [],
       trade_withdrawal_items =
         [\<lparr> trade_withdrawal_id = 33, withdrawal_steam_asset_id = [] \<rparr>,
          \<lparr> trade_withdrawal_id = 33, withdrawal_steam_asset_id = [] \<rparr>,
          \<lparr> trade_withdrawal_id = 33, withdrawal_steam_asset_id = [] \<rparr>,
          \<lparr> trade_withdrawal_id = 33, withdrawal_steam_asset_id = [] \<rparr>],
       steam_item_price_cache =
         [\<lparr> market_hash_name = ''AK-47'', base_price_usd = 1, blacklisted = False \<rparr>] \<rparr>"

definition unrestricted :: UserDetailsObject where
  "unrestricted = \<lparr> them_probation = False, them_escrowDays = 0 \<rparr>"

definition world_four_items :: "nat \<Rightarrow> World" where
  "world_four_items u =
     (world_of (db_withdrawal33 u))\<lparr>balance_replies := [Inr 1000],
                                    details_replies := [Inr unrestricted]\<rparr>"

text \<open>The same worlds after merchant 7 has locked the withdrawal, and after the profile
  of user 42 has been fetched for the offer.\<close>

definition world_four_locked :: "nat \<Rightarrow> World" where
  "world_four_locked u =
     set_trade_withdrawals [(withdrawal33 u)\<lparr>merchant_steam_id := Some 7\<rparr>]
       (emit OpskinsGetBalance ((world_four_items u)\<lparr>balance_replies := []\<rparr>))"

definition world_four_checked :: World where
  "world_four_checked =
     emit SteamGetUserDetails
       ((emit (SteamCreateOffer ''https://trade.example/42'') (world_four_locked 42))
          \<lparr>details_replies := []\<rparr>)"

text \<open>Worlds for the sourcing of withdrawal 32. In \<open>world_no_listing\<close> the marketplace
  has no active listing of the item: the search succeeds with an empty result.
  In \<open>world_gap\<close> merchant 7 sources the item while the cheapest listing costs 399, almost
  four times the cached safe price of 100; the purchase, the withdrawal to Steam and the
  inventory fetch succeed.\<close>

definition world_no_listing :: World where
  "world_no_listing =
     (world_of db_withdrawal32)\<lparr>balance_replies := [Inr 1000, Inr 1000],
                                 search_replies := [Inr []],
                                 details_replies := [Inr unrestricted]\<rparr>"

definition listing399 :: OpskinsSearchResult where
  "listing399 = \<lparr> sale_id = 555, amount = 399, market_name = ''AK-47'' \<rparr>"

definition listing400 :: OpskinsSearchResult where
  "listing400 = \<lparr> sale_id = 556, amount = 400, market_name = ''AK-47'' \<rparr>"

definition world_gap :: World where
  "world_gap =
     (world_of db_withdrawal32)\<lparr>balance_replies := [Inr 1000],
                                 search_replies := [Inr [listing399]],
                                 buy_replies := [Inr \<lparr> new_itemid = 777, new_balance = 601 \<rparr>],
                                 withdraw_replies := [True],
                                 inventory_replies := [Inr [item_ak]]\<rparr>"

text \<open>In \<open>world_guarded\<close> the cheapest listing costs 400; a purchase would succeed.
  \<open>world_guarded_loop\<close> is that world after the balance query of the sourcing.\<close>

definition world_guarded :: World where
  "world_guarded =
     (world_of db_withdrawal32)\<lparr>balance_replies := [Inr 1000],
                                 search_replies := [Inr [listing400]],
                                 buy_replies := [Inr \<lparr> new_itemid = 778, new_balance = 600 \<rparr>]\<rparr>"

definition world_guarded_loop :: World where
  "world_guarded_loop = emit OpskinsGetBalance (world_guarded\<lparr>balance_replies := []\<rparr>)"

definition world_guarded_searched :: World where
  "world_guarded_searched =
     emit (OpskinsSearch ''AK-47'') (world_guarded_loop\<lparr>search_replies := []\<rparr>)"

text \<open>A world in which the marketplace reports no external lowest price for any item
  and a listing limit of 5.\<close>

definition world_no_external_price :: World where
  "world_no_external_price =
     (world_of db_withdrawal32)\<lparr>lowest_prices_replies := [Inr Map.empty],
                                 listing_limit_replies := [Inr 5]\<rparr>"

definition world_no_external_price_asked :: World where
  "world_no_external_price_asked =
     emit OpskinsGetListingLimit
       ((emit OpskinsGetLowestPrices (world_no_external_price\<lparr>lowest_prices_replies := []\<rparr>))
          \<lparr>listing_limit_replies := []\<rparr>)"

section \<open>The price rules in integer arithmetic\<close>

lemma ceiling_21_20: "\<lceil>rat_of_int p * 21 / 20\<rceil> = - (- (21 * p) div 20)"
proof -
  have "rat_of_int p * 21 / 20 = of_int (21 * p) / of_int 20" by simp
  then show ?thesis by (simp only: ceiling_divide_eq_div)
qed

lemma le_65_percent: "(rat_of_int p \<le> rat_of_int sp * (65 / 100)) = (20 * p \<le> 13 * sp)"
proof -
  have "rat_of_int sp * (65 / 100) = rat_of_int (13 * sp) / 20" by simp
  then have "(rat_of_int p \<le> rat_of_int sp * (65 / 100))
               = (rat_of_int p * 20 \<le> rat_of_int (13 * sp))"
    by (simp only: pos_le_divide_eq [OF zero_less_numeral])
  also have "\<dots> = (rat_of_int (20 * p) \<le> rat_of_int (13 * sp))" by (simp add: mult.commute)
  also have "\<dots> = (20 * p \<le> 13 * sp)" by (simp only: of_int_le_iff)
  finally show ?thesis .
qed

lemma listing_price_int:
  "listing_price op sp (scarcity_multiplier op) =
     (if 20 * price op \<le> 13 * sp then sp
      else if quantity op \<le> 12 then - (- (21 * price op) div 20) else price op)"
  by (simp add: listing_price_def scarcity_multiplier_def le_65_percent ceiling_21_20)

lemma listing_price_rule:
  "if rat_of_int (price op) \<le> rat_of_int sp * (65 / 100) then listing_price op sp m = sp
   else listing_price op sp m = \<lceil>rat_of_int (price op) * m\<rceil>
      \<and> rat_of_int (price op) * m \<le> rat_of_int (listing_price op sp m)
      \<and> rat_of_int (listing_price op sp m) < rat_of_int (price op) * m + 1"
proof (cases "rat_of_int (price op) \<le> rat_of_int sp * (65 / 100)")
  case True
  then show ?thesis by (simp only: listing_price_def if_True)
next
  case False
  have c: "listing_price op sp m = \<lceil>rat_of_int (price op) * m\<rceil>"
    using False by (simp only: listing_price_def if_False)
  have "rat_of_int (price op) * m \<le> rat_of_int \<lceil>rat_of_int (price op) * m\<rceil>"
    by linarith
  moreover have "rat_of_int \<lceil>rat_of_int (price op) * m\<rceil> < rat_of_int (price op) * m + 1"
    by linarith
  ultimately show ?thesis using False c by simp
qed

lemma Math_round_of_int: "Math_round (of_int k) = k"
  unfolding Math_round_def by (rule floor_unique) simp_all

lemma Math_round_numeral [simp]: "Math_round (numeral n) = numeral n"
  using Math_round_of_int[of "numeral n"] by simp

text \<open>The exponent and the rounding of \<open>to_double\<close>: \<open>floor_log2\<close> brackets its argument
  between two neighbouring powers of two, and \<open>round_half_even\<close> is off by at most one
  half.\<close>

lemma bitlen_pos: "0 < n \<Longrightarrow> 1 \<le> bitlen n"
  by (auto simp: bitlen_alt_def)

lemma floor_log2_bounds:
  assumes "0 < x"
  shows "pow2 (floor_log2 x) \<le> x" and "x < pow2 (floor_log2 x + 1)"
proof -
  have "pow2 (floor_log2 x) \<le> x \<and> x < pow2 (floor_log2 x + 1)"
  proof (cases "1 \<le> x")
    case True
    define n where "n = \<lfloor>x\<rfloor>"
    have n: "0 < n" using True by (simp add: n_def)
    have b: "1 \<le> bitlen n" using n by (rule bitlen_pos)
    from bitlen_bounds[OF n] have lo: "2 ^ nat (bitlen n - 1) \<le> n" and hi: "n + 1 \<le> 2 ^ nat (bitlen n)"
      by simp_all
    have "(of_int (2 ^ nat (bitlen n - 1)) :: rat) \<le> of_int n" using lo by (simp only: of_int_le_iff)
    also have "\<dots> \<le> x" by (simp add: n_def)
    finally have 1: "(2 :: rat) ^ nat (bitlen n - 1) \<le> x" by simp
    have "x < of_int (n + 1)" unfolding n_def by linarith
    also have "\<dots> \<le> (of_int (2 ^ nat (bitlen n)) :: rat)" using hi by (simp only: of_int_le_iff)
    finally have 2: "x < (2 :: rat) ^ nat (bitlen n)" by simp
    from True b 1 2 show ?thesis by (simp add: floor_log2_def pow2_def n_def)
  next
    case False
    define y where "y = 1 / x"
    define n where "n = \<lceil>y\<rceil> - 1"
    have y: "1 < y" using False assms by (simp add: y_def)
    then have n: "0 < n" unfolding n_def by linarith
    have b: "1 \<le> bitlen n" using n by (rule bitlen_pos)
    from bitlen_bounds[OF n] have lo: "2 ^ nat (bitlen n - 1) \<le> n" and hi: "n + 1 \<le> 2 ^ nat (bitlen n)"
      by simp_all
    have "y \<le> of_int (n + 1)" unfolding n_def by simp
    also have "\<dots> \<le> (of_int (2 ^ nat (bitlen n)) :: rat)" using hi by (simp only: of_int_le_iff)
    finally have 1: "y \<le> (2 :: rat) ^ nat (bitlen n)" by simp
    have "(of_int (2 ^ nat (bitlen n - 1)) :: rat) \<le> of_int n" using lo by (simp only: of_int_le_iff)
    also have "\<dots> < y" unfolding n_def by linarith
    finally have 2: "(2 :: rat) ^ nat (bitlen n - 1) < y" by simp
    have 3: "1 / (2 :: rat) ^ nat (bitlen n) \<le> x"
      using 1 assms by (simp add: y_def field_simps)
    have 4: "x < 1 / (2 :: rat) ^ nat (bitlen n - 1)"
      using 2 assms by (simp add: y_def field_simps)
    have e: "floor_log2 x = - bitlen n" using False by (simp add: floor_log2_def n_def y_def)
    show ?thesis
    proof (cases "bitlen n = 1")
      case True
      with 3 4 b show ?thesis unfolding e by (simp add: pow2_def)
    next
      case F: False
      with b have "1 < bitlen n" by simp
      with 3 4 show ?thesis unfolding e by (simp add: pow2_def)
    qed
  qed
  then show "pow2 (floor_log2 x) \<le> x" and "x < pow2 (floor_log2 x + 1)" by simp_all
qed

lemma round_half_even_nearest: "\<bar>of_int (round_half_even x) - x\<bar> \<le> 1 / 2"
proof -
  have "of_int \<lfloor>x\<rfloor> \<le> x" "x < of_int \<lfloor>x\<rfloor> + 1" by linarith+
  then show ?thesis
    unfolding round_half_even_def Let_def by (auto simp: abs_le_iff)
qed

text \<open>The conversion of a cached price to minor units, evaluated: a whole amount is
  converted exactly, and 8.575 comes out as 857, one below the rounding of the exact
  product 857.5, because the double nearest to 8.575 lies below it.\<close>

lemma cent_price_one [simp]: "base_price_usd r = 1 \<Longrightarrow> cent_price r = 100"
proof -
  have "Math_round (to_double (to_double 1 * 100)) = 100" by code_simp
  then show "base_price_usd r = 1 \<Longrightarrow> cent_price r = 100" by (simp add: cent_price_def)
qed

lemma cent_price_in_doubles:
  "cent_price \<lparr>market_hash_name = n, base_price_usd = 8575 / 1000, blacklisted = b\<rparr> = 857"
  "Math_round (8575 / 1000 * 100) = 858"
proof -
  have "Math_round (to_double (to_double (8575 / 1000) * 100)) = 857" by code_simp
  then show "cent_price \<lparr>market_hash_name = n, base_price_usd = 8575 / 1000, blacklisted = b\<rparr> = 857"
    by (simp add: cent_price_def)
  show "Math_round (8575 / 1000 * 100) = 858" by code_simp
qed

lemma prices32: "getDbCentPrices 0 10000 db_withdrawal32 = Some [''AK-47'' \<mapsto> 100]"
  by (simp add: getDbCentPrices_def db_withdrawal32_def add_db_price_def)



section \<open>What the calls to the collaborators leave unchanged\<close>

lemma emit_frame [simp]:
  "db (emit e w) = db w" "config (emit e w) = config w" "steamID (emit e w) = steamID w"
  "now (emit e w) = now w" "trace (emit e w) = trace w @ [e]"
  by (simp_all add: emit_def)

lemma reconnectToSteam_frame [simp]:
  "db (reconnectToSteam w) = db w" "config (reconnectToSteam w) = config w"
  "steamID (reconnectToSteam w) = steamID w" "now (reconnectToSteam w) = now w"
  by (simp_all add: reconnectToSteam_def)

lemma getUserInventoryAsync_frame:
  "getUserInventoryAsync s w = (r, w') \<Longrightarrow>
     db w' = db w \<and> config w' = config w \<and> steamID w' = steamID w \<and> now w' = now w"
  by (auto simp: getUserInventoryAsync_def next_reply_def split: list.splits)

lemma list_free_items_frame:
  "list_free_items m items w = (r, w') \<Longrightarrow>
     db w' = db w \<and> config w' = config w \<and> steamID w' = steamID w \<and> now w' = now w"
  by (auto simp: list_free_items_def Let_def split: if_splits)

lemma list_free_items_snd [simp]:
  "db (snd (list_free_items m items w)) = db w"
  by (simp add: list_free_items_def Let_def)

lemma set_table_frame [simp]:
  "db (set_trade_deposits rows w) = (db w)\<lparr>trade_deposits := rows\<rparr>"
  "db (set_trade_withdrawals rows w) = (db w)\<lparr>trade_withdrawals := rows\<rparr>"
  "db (set_users urows w) = (db w)\<lparr>users := urows\<rparr>"
  "steamID (set_trade_deposits rows w) = steamID w"
  "steamID (set_trade_withdrawals rows w) = steamID w"
  "steamID (set_users urows w) = steamID w"
  "now (set_trade_deposits rows w) = now w"
  "now (set_trade_withdrawals rows w) = now w"
  "now (set_users urows w) = now w"
  "config (set_trade_deposits rows w) = config w"
  "config (set_trade_withdrawals rows w) = config w"
  "config (set_users urows w) = config w"
  "trace (set_trade_deposits rows w) = trace w"
  "trace (set_trade_withdrawals rows w) = trace w"
  "trace (set_users urows w) = trace w"
  by (simp_all add: set_trade_deposits_def set_trade_withdrawals_def set_users_def)


lemma getUserDetailsAsync_frame:
  "getUserDetailsAsync w = (r, w') \<Longrightarrow>
     db w' = db w \<and> config w' = config w \<and> steamID w' = steamID w \<and> now w' = now w"
  by (auto simp: getUserDetailsAsync_def next_reply_def split: list.splits)

lemma sendOfferAsync_frame:
  "sendOfferAsync w = (r, w') \<Longrightarrow>
     db w' = db w \<and> config w' = config w \<and> steamID w' = steamID w \<and> now w' = now w"
  by (auto simp: sendOfferAsync_def next_reply_def split: list.splits)

lemma confirmOfferAsync_frame:
  "confirmOfferAsync i w = (r, w') \<Longrightarrow>
     db w' = db w \<and> config w' = config w \<and> steamID w' = steamID w \<and> now w' = now w"
  by (auto simp: confirmOfferAsync_def next_reply_def split: list.splits)

lemma opskins_getBalance_frame:
  "opskins_getBalance w = (r, w') \<Longrightarrow>
     db w' = db w \<and> config w' = config w \<and> steamID w' = steamID w \<and> now w' = now w"
  by (auto simp: opskins_getBalance_def next_reply_def split: list.splits)

lemma searchOpskins_frame:
  "searchOpskins n w = (r, w') \<Longrightarrow>
     db w' = db w \<and> config w' = config w \<and> steamID w' = steamID w \<and> now w' = now w"
  by (auto simp: searchOpskins_def next_reply_def split: list.splits)

lemma buyOpskinsItem_frame:
  "buyOpskinsItem s w = (r, w') \<Longrightarrow>
     db w' = db w \<and> config w' = config w \<and> steamID w' = steamID w \<and> now w' = now w"
  by (auto simp: buyOpskinsItem_def next_reply_def split: list.splits)

lemma withdrawOpskinsItems_frame:
  "withdrawOpskinsItems is w = (r, w') \<Longrightarrow>
     db w' = db w \<and> config w' = config w \<and> steamID w' = steamID w \<and> now w' = now w"
  by (auto simp: withdrawOpskinsItems_def split: list.splits)

lemma waitAsync_frame [simp]:
  "db (waitAsync n w) = db w" "config (waitAsync n w) = config w"
  "steamID (waitAsync n w) = steamID w" "now (waitAsync n w) = now w"
  "trace (waitAsync n w) = trace w @ [Wait n]"
  by (simp_all add: waitAsync_def)

lemma update_where_none:
  "\<not> list_ex c rows \<Longrightarrow> update_where c upd rows = rows"
  by (induction rows) (auto simp: update_where_def)

lemma returning_none:
  "\<not> list_ex c rows \<Longrightarrow> returning c upd rows = []"
  by (induction rows) (auto simp: returning_def)

section \<open>List-after-acquisition\<close>

lemma list_item_step_Pushes:
  "list_item_step cfg opd spd it = Pushes li \<Longrightarrow>
     \<exists>op sp. opd (item_market_hash_name it) = Some op \<and> spd (item_market_hash_name it) = Some sp
       \<and> list_assetid li = assetid it
       \<and> list_price li = listing_price op sp (scarcity_multiplier op)"
  by (auto simp: list_item_step_def Let_def split: option.splits if_splits)

text \<open>Every entry of the result of the loop was pushed for one of the items, or was in
  the list before.\<close>

lemma list_loop_origin:
  "list_loop cfg opd spd liimt items acc = Inr listItems \<Longrightarrow> li \<in> set listItems \<Longrightarrow>
     li \<in> set acc \<or> (\<exists>it \<in> set items. list_item_step cfg opd spd it = Pushes li)"
proof (induction items arbitrary: acc)
  case Nil
  then show ?case by simp
next
  case (Cons it items)
  show ?case
  proof (cases "int (length acc) < liimt")
    case False
    with Cons.prems show ?thesis by simp
  next
    case True
    show ?thesis
    proof (cases "list_item_step cfg opd spd it")
      case (Throws e)
      with True Cons.prems show ?thesis by simp
    next
      case Skips
      with True Cons.prems have "list_loop cfg opd spd liimt items acc = Inr listItems" by simp
      from Cons.IH[OF this Cons.prems(2)] show ?thesis by auto
    next
      case (Pushes x)
      with True Cons.prems have "list_loop cfg opd spd liimt items (acc @ [x]) = Inr listItems"
        by simp
      from Cons.IH[OF this Cons.prems(2)] Pushes show ?thesis by auto
    qed
  qed
qed

text \<open>
  Claim C9, as stated, at a concrete input: the external lowest price is 150 with 10 units
  available and the cached safe price is 150. The undervaluation condition does not hold
  (150 is not at most 97.5), the item is listed at \<open>\<lceil>157.5\<rceil> = 158\<close>, and 158 exceeds 1.05
  times the external lowest price, 157.5.
\<close>

theorem listed_price_counterexample:
  "list_item_step cfg0 [''AK-47'' \<mapsto> \<lparr>price = 150, quantity = 10\<rparr>] [''AK-47'' \<mapsto> 150] item_ak
     = Pushes \<lparr>list_appid = 730, list_contextid = 2, list_assetid = ''9001'', list_price = 158\<rparr>
   \<and> \<not> (150 :: rat) \<le> 150 * (65 / 100)
   \<and> (158 :: rat) > (105 / 100) * 150"
  by (simp add: list_item_step_def listing_price_int cfg0_def item_ak_def)

text \<open>
  Claim C9, amended: every item that list-after-acquisition lists belongs to an inventory
  item that has both an external lowest price and a cached safe price; it is listed at the
  safe price when the external lowest price is at most 65% of the safe price, and otherwise
  at the external lowest price times the scarcity multiplier (1.05 when the externally
  available quantity is at most 12, else 1) rounded up, which is at least that product and
  less than one minor unit above it.
\<close>

theorem listed_price_rule:
  assumes "list_loop cfg opPriceData spPriceData liimt items [] = Inr listItems"
    and "li \<in> set listItems"
  shows "\<exists>it \<in> set items. \<exists>op sp.
           opPriceData (item_market_hash_name it) = Some op
         \<and> spPriceData (item_market_hash_name it) = Some sp
         \<and> list_assetid li = assetid it
         \<and> (if of_int (price op) \<le> of_int sp * (65 / 100 :: rat) then list_price li = sp
            else list_price li = \<lceil>of_int (price op) * scarcity_multiplier op\<rceil>
               \<and> of_int (price op) * scarcity_multiplier op \<le> of_int (list_price li)
               \<and> of_int (list_price li) < of_int (price op) * scarcity_multiplier op + 1)"
proof -
  from list_loop_origin[OF assms] obtain it where it: "it \<in> set items"
    and step: "list_item_step cfg opPriceData spPriceData it = Pushes li" by auto
  from list_item_step_Pushes[OF step] obtain op sp where
    o: "opPriceData (item_market_hash_name it) = Some op"
    and s: "spPriceData (item_market_hash_name it) = Some sp"
    and a: "list_assetid li = assetid it"
    and p: "list_price li = listing_price op sp (scarcity_multiplier op)" by blast
  have "if of_int (price op) \<le> of_int sp * (65 / 100 :: rat) then list_price li = sp
        else list_price li = \<lceil>of_int (price op) * scarcity_multiplier op\<rceil>
           \<and> of_int (price op) * scarcity_multiplier op \<le> of_int (list_price li)
           \<and> of_int (list_price li) < of_int (price op) * scarcity_multiplier op + 1"
    unfolding p by (rule listing_price_rule)
  with it o s a show ?thesis by blast
qed

theorem listed_price_rule_witness:
  "list_loop cfg0 [''AK-47'' \<mapsto> \<lparr>price = 150, quantity = 10\<rparr>] [''AK-47'' \<mapsto> 150] 5 [item_ak] []
     = Inr [\<lparr>list_appid = 730, list_contextid = 2, list_assetid = ''9001'', list_price = 158\<rparr>]
   \<and> (\<exists>it \<in> set [item_ak]. \<exists>op sp.
           [''AK-47'' \<mapsto> \<lparr>price = 150, quantity = 10\<rparr>] (item_market_hash_name it) = Some op
         \<and> [''AK-47'' \<mapsto> (150::int)] (item_market_hash_name it) = Some sp
         \<and> list_assetid \<lparr>list_appid = 730, list_contextid = 2, list_assetid = ''9001'', list_price = 158\<rparr> = assetid it
         \<and> (if of_int (price op) \<le> of_int sp * (65 / 100 :: rat)
            then list_price \<lparr>list_appid = 730, list_contextid = 2, list_assetid = ''9001'', list_price = 158\<rparr> = sp
            else list_price \<lparr>list_appid = 730, list_contextid = 2, list_assetid = ''9001'', list_price = 158\<rparr> = \<lceil>of_int (price op) * scarcity_multiplier op\<rceil>
               \<and> of_int (price op) * scarcity_multiplier op \<le> of_int (list_price \<lparr>list_appid = 730, list_contextid = 2, list_assetid = ''9001'', list_price = 158\<rparr>)
               \<and> of_int (list_price \<lparr>list_appid = 730, list_contextid = 2, list_assetid = ''9001'', list_price = 158\<rparr>) < of_int (price op) * scarcity_multiplier op + 1))"
proof -
  have run: "list_loop cfg0 [''AK-47'' \<mapsto> \<lparr>price = 150, quantity = 10\<rparr>] [''AK-47'' \<mapsto> 150] 5 [item_ak] []
     = Inr [\<lparr>list_appid = 730, list_contextid = 2, list_assetid = ''9001'', list_price = 158\<rparr>]"
    by (simp add: list_item_step_def listing_price_int cfg0_def item_ak_def)
  have mem: "\<lparr>list_appid = 730, list_contextid = 2, list_assetid = ''9001'', list_price = 158\<rparr>
      \<in> set [\<lparr>list_appid = 730, list_contextid = 2, list_assetid = ''9001'', list_price = 158\<rparr>]"
    by simp
  from listed_price_rule[OF run mem] run show ?thesis by blast
qed

lemma listItemsToOpskins_throws:
  assumes "opskins_getLowestPrices w = (Inr opPriceData, w1)"
    and "opskins_getListingLimit w1 = (Inr liimt, w2)"
    and "0 < liimt"
    and "getDbCentPrices 0 10000 (db w2) = Some spPriceData"
    and "opPriceData (item_market_hash_name it) = None"
  shows "listing_limit_callback (it # items) opPriceData (Inr liimt) w2
           = (Rejected TypeError_quantity, w2)"
    and "listItemsToOpskins (it # items) w
           = (\<lparr>routine_promise = Returned, unhandled_rejection = Some TypeError_quantity\<rparr>, w2)"
  using assms
  by (simp_all add: listItemsToOpskins_def listing_limit_callback_def list_item_step_def)

lemma no_external_price_replies:
  "opskins_getLowestPrices world_no_external_price
     = (Inr Map.empty, emit OpskinsGetLowestPrices (world_no_external_price\<lparr>lowest_prices_replies := []\<rparr>))"
  "opskins_getListingLimit
       (emit OpskinsGetLowestPrices (world_no_external_price\<lparr>lowest_prices_replies := []\<rparr>))
     = (Inr 5, world_no_external_price_asked)"
  "getDbCentPrices 0 10000 (db world_no_external_price_asked) = Some [''AK-47'' \<mapsto> 100]"
  "trace world_no_external_price_asked = [OpskinsGetLowestPrices, OpskinsGetListingLimit]"
  by (simp_all add: opskins_getLowestPrices_def opskins_getListingLimit_def next_reply_def
                    world_no_external_price_asked_def world_no_external_price_def world_of_def
                    emit_def prices32)

text \<open>
  Claim C10: in list-after-acquisition, an item whose name has no entry in the fetched
  external price data makes the loop throw when it reads the quantity of the missing entry,
  instead of skipping the item; and whenever the guard skips an item, the external price
  entry is present and it is the cached safe price that is missing, so the guard never acts
  for the external price data. In the routine the loop runs inside the \<open>async\<close> callback of
  \<open>getListingLimit\<close>: the \<open>TypeError\<close> rejects the promise of that callback, which nobody
  handles, nothing is listed, and the promise of the routine itself, which awaits nothing,
  is fulfilled.
\<close>

theorem missing_price_entry_throws:
  "(opPriceData (item_market_hash_name it) = None \<and> int (length listItems) < liimt \<longrightarrow>
      list_loop cfg opPriceData spPriceData liimt (it # items) listItems = Inl TypeError_quantity)
   \<and> (list_item_step cfg opPriceData spPriceData it = Skips \<longrightarrow>
        opPriceData (item_market_hash_name it) \<noteq> None
      \<and> spPriceData (item_market_hash_name it) = None)
   \<and> (opskins_getLowestPrices w = (Inr opPriceData, w1)
        \<and> opskins_getListingLimit w1 = (Inr liimt, w2) \<and> 0 < liimt
        \<and> getDbCentPrices 0 10000 (db w2) = Some spPriceData
        \<and> opPriceData (item_market_hash_name it) = None \<longrightarrow>
        listing_limit_callback (it # items) opPriceData (Inr liimt) w2
          = (Rejected TypeError_quantity, w2)
      \<and> listItemsToOpskins (it # items) w
          = (\<lparr>routine_promise = Returned, unhandled_rejection = Some TypeError_quantity\<rparr>, w2))"
proof -
  have a: "opPriceData (item_market_hash_name it) = None \<and> int (length listItems) < liimt \<longrightarrow>
      list_loop cfg opPriceData spPriceData liimt (it # items) listItems = Inl TypeError_quantity"
    by (simp add: list_item_step_def)
  have b: "list_item_step cfg opPriceData spPriceData it = Skips \<longrightarrow>
        opPriceData (item_market_hash_name it) \<noteq> None
      \<and> spPriceData (item_market_hash_name it) = None"
    by (auto simp: list_item_step_def Let_def split: option.splits if_splits)
  have c: "opskins_getLowestPrices w = (Inr opPriceData, w1)
        \<and> opskins_getListingLimit w1 = (Inr liimt, w2) \<and> 0 < liimt
        \<and> getDbCentPrices 0 10000 (db w2) = Some spPriceData
        \<and> opPriceData (item_market_hash_name it) = None \<longrightarrow>
        listing_limit_callback (it # items) opPriceData (Inr liimt) w2
          = (Rejected TypeError_quantity, w2)
      \<and> listItemsToOpskins (it # items) w
          = (\<lparr>routine_promise = Returned, unhandled_rejection = Some TypeError_quantity\<rparr>, w2)"
    using listItemsToOpskins_throws[of w opPriceData w1 liimt w2 spPriceData it items] by blast
  from a b c show ?thesis by blast
qed

theorem missing_price_entry_throws_witness:
  "Map.empty (item_market_hash_name item_ak) = (None :: LowestPrice option)
   \<and> int (length ([] :: ToListItem list)) < 5
   \<and> list_loop cfg0 Map.empty [''AK-47'' \<mapsto> 100] 5 [item_ak] [] = Inl TypeError_quantity
   \<and> list_item_step cfg0 [''AK-47'' \<mapsto> \<lparr>price = 150, quantity = 10\<rparr>] Map.empty item_ak = Skips
   \<and> [''AK-47'' \<mapsto> \<lparr>price = 150, quantity = 10\<rparr>] (item_market_hash_name item_ak) \<noteq> None
   \<and> opskins_getLowestPrices world_no_external_price
       = (Inr Map.empty, emit OpskinsGetLowestPrices (world_no_external_price\<lparr>lowest_prices_replies := []\<rparr>))
   \<and> opskins_getListingLimit
         (emit OpskinsGetLowestPrices (world_no_external_price\<lparr>lowest_prices_replies := []\<rparr>))
       = (Inr 5, world_no_external_price_asked)
   \<and> getDbCentPrices 0 10000 (db world_no_external_price_asked) = Some [''AK-47'' \<mapsto> 100]
   \<and> listing_limit_callback [item_ak] Map.empty (Inr 5) world_no_external_price_asked
       = (Rejected TypeError_quantity, world_no_external_price_asked)
   \<and> listItemsToOpskins [item_ak] world_no_external_price
       = (\<lparr>routine_promise = Returned, unhandled_rejection = Some TypeError_quantity\<rparr>,
          world_no_external_price_asked)
   \<and> trace world_no_external_price_asked = [OpskinsGetLowestPrices, OpskinsGetListingLimit]"
proof -
  have s: "list_item_step cfg0 [''AK-47'' \<mapsto> \<lparr>price = 150, quantity = 10\<rparr>] Map.empty item_ak = Skips"
    by (simp add: list_item_step_def item_ak_def)
  have e: "Map.empty (item_market_hash_name item_ak) = (None :: LowestPrice option)" by simp
  have l: "(0::int) < 5" "int (length ([] :: ToListItem list)) < 5" by simp_all
  note t1 = missing_price_entry_throws[where opPriceData = Map.empty and it = item_ak
              and listItems = "[]" and liimt = 5 and cfg = cfg0
              and spPriceData = "[''AK-47'' \<mapsto> 100]" and items = "[]"
              and w = world_no_external_price
              and ?w1.0 = "emit OpskinsGetLowestPrices (world_no_external_price\<lparr>lowest_prices_replies := []\<rparr>)"
              and ?w2.0 = world_no_external_price_asked]
  note t2 = missing_price_entry_throws[where opPriceData = "[''AK-47'' \<mapsto> \<lparr>price = 150, quantity = 10\<rparr>]"
              and it = item_ak and cfg = cfg0 and spPriceData = Map.empty]
  from t1 e l have a: "list_loop cfg0 Map.empty [''AK-47'' \<mapsto> 100] 5 [item_ak] [] = Inl TypeError_quantity"
    by blast
  from t2 s have b: "[''AK-47'' \<mapsto> \<lparr>price = 150, quantity = 10\<rparr>] (item_market_hash_name item_ak) \<noteq> None"
    by blast
  from t1 e l no_external_price_replies
  have c: "listing_limit_callback [item_ak] Map.empty (Inr 5) world_no_external_price_asked
       = (Rejected TypeError_quantity, world_no_external_price_asked)
     \<and> listItemsToOpskins [item_ak] world_no_external_price
       = (\<lparr>routine_promise = Returned, unhandled_rejection = Some TypeError_quantity\<rparr>,
          world_no_external_price_asked)" by blast
  from e l a s b c no_external_price_replies show ?thesis by blast
qed

section \<open>Offer State Reconciler\<close>

lemma db_deposit_accepted:
  "db (snd (deposit_accepted deposit w))
     = (db w)\<lparr>users := update_where (\<lambda>u. steam_id u = user_steam_id deposit)
                  (\<lambda>u. u\<lparr>balance := balance u + total deposit + bonus deposit\<rparr>) (users (db w)),
               trade_deposits := update_where (\<lambda>r. trade_id r = trade_id deposit)
                  (\<lambda>r. r\<lparr>completed_at := Some (now w)\<rparr>) (trade_deposits (db w))\<rparr>"
  unfolding deposit_accepted_def Let_def
  by (auto split: option.splits prod.splits sum.splits
           dest!: getUserInventoryAsync_frame list_free_items_frame)

lemma ignored_transition:
  "oldState \<notin> set COMPLETABLE_STATES \<Longrightarrow> completeDeposit offer oldState w = (Returned, w)"
  "oldState \<notin> set COMPLETABLE_STATES \<Longrightarrow> completeWithdrawal offer oldState w = (Returned, w)"
  by (simp_all add: completeDeposit_def completeWithdrawal_def)

lemma world_of_simps [simp]:
  "db (world_of d) = d" "config (world_of d) = cfg0" "steamID (world_of d) = Some 7"
  "now (world_of d) = 10" "trace (world_of d) = []"
  by (simp_all add: world_of_def)

lemma completeDeposit_Accepted:
  "oldState \<in> set COMPLETABLE_STATES \<Longrightarrow> offer_state offer = Accepted \<Longrightarrow>
   db_one (filter (\<lambda>r. steam_offer_id r = Some (offer_id offer)) (trade_deposits (db w))) = Inr deposit
   \<Longrightarrow> completeDeposit offer oldState w = deposit_accepted deposit w"
  by (simp add: completeDeposit_def)

lemma db_one_single: "db_one rows = Inr r \<longleftrightarrow> rows = [r]"
  by (simp add: db_one_def split: list.splits)

text \<open>Marking the deposit as complete does not change which row carries the offer id: the
  second handling of the event retrieves the same deposit, now with \<open>completed_at\<close> set, and
  nothing in the handler reads that column.\<close>

lemma deposit_found_again:
  assumes "db_one (filter (\<lambda>r. steam_offer_id r = k) rows) = Inr deposit"
  shows "db_one (filter (\<lambda>r. steam_offer_id r = k)
                   (update_where (\<lambda>r. trade_id r = trade_id deposit)
                      (\<lambda>r. r\<lparr>completed_at := t\<rparr>) rows))
           = Inr (deposit\<lparr>completed_at := t\<rparr>)"
proof -
  have "filter (\<lambda>r. steam_offer_id r = k)
          (update_where (\<lambda>r. trade_id r = trade_id deposit) (\<lambda>r. r\<lparr>completed_at := t\<rparr>) rows)
        = update_where (\<lambda>r. trade_id r = trade_id deposit) (\<lambda>r. r\<lparr>completed_at := t\<rparr>)
            (filter (\<lambda>r. steam_offer_id r = k) rows)"
    by (induction rows) (simp_all add: update_where_def)
  moreover from assms have "filter (\<lambda>r. steam_offer_id r = k) rows = [deposit]"
    by (simp add: db_one_single)
  ultimately show ?thesis by (simp add: db_one_single update_where_def)
qed

lemma users_credited:
  assumes "oldState \<in> set COMPLETABLE_STATES"
    and "offer_state offer = Accepted"
    and "db_one (filter (\<lambda>r. steam_offer_id r = Some (offer_id offer)) (trade_deposits (db w)))
           = Inr deposit"
  shows "users (db (snd (completeDeposit offer oldState w)))
           = map (\<lambda>u. if steam_id u = user_steam_id deposit
                       then u\<lparr>balance := balance u + total deposit + bonus deposit\<rparr> else u)
                 (users (db w))"
    and "db_one (filter (\<lambda>r. steam_offer_id r = Some (offer_id offer))
                   (trade_deposits (db (snd (completeDeposit offer oldState w)))))
           = Inr (deposit\<lparr>completed_at := Some (now w)\<rparr>)"
  unfolding completeDeposit_Accepted[OF assms] db_deposit_accepted
  using deposit_found_again[OF assms(3)] by (simp_all add: update_where_def)

lemma users_credited_twice:
  assumes "oldState \<in> set COMPLETABLE_STATES"
    and "offer_state offer = Accepted"
    and "db_one (filter (\<lambda>r. steam_offer_id r = Some (offer_id offer)) (trade_deposits (db w)))
           = Inr deposit"
    and "oldState' \<in> set COMPLETABLE_STATES"
  shows "users (db (snd (completeDeposit offer oldState' (snd (completeDeposit offer oldState w)))))
           = map (\<lambda>u. if steam_id u = user_steam_id deposit
                       then u\<lparr>balance := balance u + total deposit + bonus deposit
                                                + total deposit + bonus deposit\<rparr> else u)
                 (users (db w))"
  unfolding users_credited(1)[OF assms(4) assms(2) users_credited(2)[OF assms(1-3)]]
            users_credited(1)[OF assms(1-3)]
  by simp

lemma deposit31_found:
  "Active \<in> set COMPLETABLE_STATES" "Accepted \<notin> set COMPLETABLE_STATES"
  "offer_state (offer1 Accepted) = Accepted"
  "db_one (filter (\<lambda>r. steam_offer_id r = Some (offer_id (offer1 Accepted)))
             (trade_deposits (db (world_of db_deposit31)))) = Inr deposit31"
  by (simp_all add: COMPLETABLE_STATES_def db_one_def offer1_def db_deposit31_def deposit31_def)

text \<open>
  Claim C2, as stated, at a concrete input: user 42 has the balance 200 and deposit 31 has
  the total 1000 and the bonus 50. The offer of the deposit is accepted from the prior
  state \<open>Active\<close> and the balance becomes 1250; the completion event fires a second time,
  again with the prior state \<open>Active\<close>, and the balance becomes 2300. The filter on the prior
  state lets the second event pass, and the handler does not read \<open>completed_at\<close>.
\<close>

theorem deposit_credited_twice_counterexample:
  "map balance (users (db (world_of db_deposit31))) = [200]
   \<and> total deposit31 + bonus deposit31 = 1050
   \<and> map balance (users (db world_accepted)) = [1250]
   \<and> map completed_at (trade_deposits (db world_accepted)) = [Some 10]
   \<and> map balance (users (db world_accepted_again)) = [2300]"
proof -
  have a: "map balance (users (db world_accepted)) = [1250]"
    unfolding world_accepted_def users_credited(1)[OF deposit31_found(1,3,4)]
    by (simp add: db_deposit31_def deposit31_def user42_def)
  have b: "map balance (users (db world_accepted_again)) = [2300]"
    unfolding world_accepted_again_def world_accepted_def
              users_credited_twice[OF deposit31_found(1,3,4) deposit31_found(1)]
    by (simp add: db_deposit31_def deposit31_def user42_def)
  have c: "map completed_at (trade_deposits (db world_accepted)) = [Some 10]"
    unfolding world_accepted_def completeDeposit_Accepted[OF deposit31_found(1,3,4)]
              db_deposit_accepted
    by (simp add: update_where_def db_deposit31_def deposit31_def)
  from a b c show ?thesis
    by (simp add: db_deposit31_def deposit31_def user42_def)
qed

text \<open>
  Claim C2, amended: each time an event that reports the offer of a deposit as \<open>Accepted\<close>
  with a prior state in \<open>{Active, CreatedNeedsConfirmation}\<close> is handled, the balance of the
  owning user grows by the total plus the bonus of the deposit, and every other user keeps
  their balance. A following event is ignored, and the credit stays as it is, when its
  prior state is outside that set; a following event for the same offer whose prior state
  is again in the set credits the total plus the bonus a second time, since the filter on
  the prior state is the only protection and the handler does not check \<open>completed_at\<close>.
\<close>

theorem deposit_credit_per_event:
  assumes "oldState \<in> set COMPLETABLE_STATES"
    and "offer_state offer = Accepted"
    and "db_one (filter (\<lambda>r. steam_offer_id r = Some (offer_id offer)) (trade_deposits (db w)))
           = Inr deposit"
  shows "users (db (snd (completeDeposit offer oldState w)))
           = map (\<lambda>u. if steam_id u = user_steam_id deposit
                       then u\<lparr>balance := balance u + total deposit + bonus deposit\<rparr> else u)
                 (users (db w))
       \<and> (oldState' \<notin> set COMPLETABLE_STATES \<longrightarrow>
            completeDeposit offer' oldState' (snd (completeDeposit offer oldState w))
              = (Returned, snd (completeDeposit offer oldState w)))
       \<and> (oldState' \<in> set COMPLETABLE_STATES \<longrightarrow>
            users (db (snd (completeDeposit offer oldState' (snd (completeDeposit offer oldState w)))))
              = map (\<lambda>u. if steam_id u = user_steam_id deposit
                          then u\<lparr>balance := balance u + total deposit + bonus deposit
                                                   + total deposit + bonus deposit\<rparr> else u)
                    (users (db w)))"
  using users_credited(1)[OF assms] users_credited_twice[OF assms, of oldState']
        ignored_transition(1)[of oldState' offer' "snd (completeDeposit offer oldState w)"]
  by blast

theorem deposit_credit_per_event_witness:
  "Active \<in> set COMPLETABLE_STATES \<and> Accepted \<notin> set COMPLETABLE_STATES
   \<and> CreatedNeedsConfirmation \<in> set COMPLETABLE_STATES
   \<and> offer_state (offer1 Accepted) = Accepted
   \<and> db_one (filter (\<lambda>r. steam_offer_id r = Some (offer_id (offer1 Accepted)))
                     (trade_deposits (db (world_of db_deposit31)))) = Inr deposit31
   \<and> users (db (snd (completeDeposit (offer1 Accepted) Active (world_of db_deposit31))))
       = [\<lparr> steam_id = 42, trade_link_url = Some ''https://trade.example/42'', balance = 1250 \<rparr>]
   \<and> completeDeposit (offer1 Accepted) Accepted
        (snd (completeDeposit (offer1 Accepted) Active (world_of db_deposit31)))
       = (Returned, snd (completeDeposit (offer1 Accepted) Active (world_of db_deposit31)))
   \<and> users (db (snd (completeDeposit (offer1 Accepted) CreatedNeedsConfirmation
                        (snd (completeDeposit (offer1 Accepted) Active (world_of db_deposit31))))))
       = [\<lparr> steam_id = 42, trade_link_url = Some ''https://trade.example/42'', balance = 2300 \<rparr>]"
proof -
  have h5: "CreatedNeedsConfirmation \<in> set COMPLETABLE_STATES"
    by (simp add: COMPLETABLE_STATES_def)
  note t1 = deposit_credit_per_event[OF deposit31_found(1,3,4),
              where oldState' = Accepted and offer' = "offer1 Accepted"]
  note t2 = deposit_credit_per_event[OF deposit31_found(1,3,4),
              where oldState' = CreatedNeedsConfirmation]
  from t1 have a: "users (db (snd (completeDeposit (offer1 Accepted) Active (world_of db_deposit31))))
       = [\<lparr> steam_id = 42, trade_link_url = Some ''https://trade.example/42'', balance = 1250 \<rparr>]"
    by (simp add: db_deposit31_def deposit31_def user42_def)
  from t1 deposit31_found(2)
  have b: "completeDeposit (offer1 Accepted) Accepted
        (snd (completeDeposit (offer1 Accepted) Active (world_of db_deposit31)))
       = (Returned, snd (completeDeposit (offer1 Accepted) Active (world_of db_deposit31)))"
    by blast
  from t2 h5
  have "users (db (snd (completeDeposit (offer1 Accepted) CreatedNeedsConfirmation
                        (snd (completeDeposit (offer1 Accepted) Active (world_of db_deposit31))))))
       = map (\<lambda>u. if steam_id u = user_steam_id deposit31
                   then u\<lparr>balance := balance u + total deposit31 + bonus deposit31
                                            + total deposit31 + bonus deposit31\<rparr> else u)
             (users (db (world_of db_deposit31)))"
    by blast
  then have c: "users (db (snd (completeDeposit (offer1 Accepted) CreatedNeedsConfirmation
                        (snd (completeDeposit (offer1 Accepted) Active (world_of db_deposit31))))))
       = [\<lparr> steam_id = 42, trade_link_url = Some ''https://trade.example/42'', balance = 2300 \<rparr>]"
    by (simp add: db_deposit31_def deposit31_def user42_def)
  from deposit31_found h5 a b c show ?thesis by blast
qed

subsection \<open>The failure record\<close>

lemma fail_rows:
  "db (fail tbl i e w) =
     (case tbl of
        Table_trade_deposits \<Rightarrow> (db w)\<lparr>trade_deposits :=
           update_where (\<lambda>r. trade_id r = i)
             (\<lambda>r. r\<lparr>failed_at := Some (now w), failure_details := Some (errMessage e)\<rparr>)
             (trade_deposits (db w))\<rparr>
      | Table_trade_withdrawals \<Rightarrow> (db w)\<lparr>trade_withdrawals :=
           update_where (\<lambda>r. trade_id r = i)
             (\<lambda>r. r\<lparr>failed_at := Some (now w), failure_details := Some (errMessage e)\<rparr>)
             (trade_withdrawals (db w))\<rparr>)"
  by (simp add: fail_def Let_def split: table.splits)

lemma list_all_update_where:
  "list_all P rows \<Longrightarrow> (\<And>r. P r \<Longrightarrow> P (upd r)) \<Longrightarrow> list_all P (update_where c upd rows)"
  by (induction rows) (auto simp: update_where_def)

lemma failures_paired_fail:
  "failures_paired (db w) \<Longrightarrow> failures_paired (db (fail tbl i e w))"
  by (cases tbl) (auto simp: failures_paired_def fail_rows failure_paired_def
                       intro!: list_all_update_where)

lemma failures_paired_completeDeposit:
  assumes "failures_paired (db w)"
  shows "failures_paired (db (snd (completeDeposit offer oldState w)))"
proof -
  have acc: "\<And>d. failures_paired (db (snd (deposit_accepted d w)))"
    using assms
    by (auto simp: db_deposit_accepted failures_paired_def failure_paired_def
             intro!: list_all_update_where)
  show ?thesis
    using assms acc
    by (auto simp: completeDeposit_def failDeposit_def failures_paired_fail split: sum.splits)
qed

lemma failures_paired_completeWithdrawal:
  assumes "failures_paired (db w)"
  shows "failures_paired (db (snd (completeWithdrawal offer oldState w)))"
proof -
  have acc: "\<And>d. failures_paired ((db w)\<lparr>trade_withdrawals :=
       update_where (\<lambda>r. trade_id r = trade_id d) (\<lambda>r. r\<lparr>completed_at := Some (now w)\<rparr>)
         (trade_withdrawals (db w))\<rparr>)"
    using assms
    by (auto simp: failures_paired_def failure_paired_def intro!: list_all_update_where)
  show ?thesis
    using assms acc
    by (auto simp: completeWithdrawal_def failWithdrawal_def failures_paired_fail split: sum.splits)
qed

lemma update_where_hits:
  "(\<And>r. c r \<Longrightarrow> Q (upd r)) \<Longrightarrow> list_all (\<lambda>r. c r \<longrightarrow> Q r) (update_where c upd rows)"
  by (induction rows) (simp_all add: update_where_def)

lemma failDeposit_sets_both:
  "list_all (\<lambda>r. trade_id r = i \<longrightarrow>
                    failed_at r = Some (now w) \<and> failure_details r = Some (errMessage e))
       (trade_deposits (db (failDeposit i e w)))"
  unfolding failDeposit_def fail_rows by (simp add: update_where_hits)

lemma failWithdrawal_sets_both:
  "list_all (\<lambda>r. trade_id r = i \<longrightarrow>
                    failed_at r = Some (now w) \<and> failure_details r = Some (errMessage e))
       (trade_withdrawals (db (failWithdrawal i e w)))"
  unfolding failWithdrawal_def fail_rows by (simp add: update_where_hits)

lemma failures_stay_paired:
  "failures_paired (db w) \<longrightarrow>
       failures_paired (db (fail tbl i e w))
     \<and> failures_paired (db (snd (completeDeposit offer oldState w)))
     \<and> failures_paired (db (snd (completeWithdrawal offer oldState w)))"
  using failures_paired_fail failures_paired_completeDeposit failures_paired_completeWithdrawal
  by blast

lemma ignored_transitions:
  "oldState \<notin> set COMPLETABLE_STATES \<longrightarrow>
        completeDeposit offer oldState w = (Returned, w)
      \<and> completeWithdrawal offer oldState w = (Returned, w)"
  by (simp add: ignored_transition)

lemma completeDeposit_Declined:
  "oldState \<in> set COMPLETABLE_STATES \<Longrightarrow> offer_state offer = Declined \<Longrightarrow>
   db_one (filter (\<lambda>r. steam_offer_id r = Some (offer_id offer)) (trade_deposits (db w))) = Inr deposit
   \<Longrightarrow> completeDeposit offer oldState w
        = (Returned, failDeposit (trade_id deposit) (StringValue ''Trade offer declined'') w)"
  by (simp add: completeDeposit_def)

lemma failDeposit_deposit31:
  "trade_deposits (db w) = [r] \<Longrightarrow> trade_id r = 31 \<Longrightarrow>
   trade_deposits (db (failDeposit 31 e w))
     = [r\<lparr>failed_at := Some (now w), failure_details := Some (errMessage e)\<rparr>]"
  by (simp add: failDeposit_def fail_rows update_where_def)

lemma trade_deposits_world_declined:
  "trade_deposits (db world_declined)
     = [deposit31\<lparr>failed_at := Some 10, failure_details := Some ''Trade offer declined''\<rparr>]"
proof -
  have a: "Active \<in> set COMPLETABLE_STATES" by (simp add: COMPLETABLE_STATES_def)
  have b: "offer_state (offer1 Declined) = Declined" by (simp add: offer1_def)
  have c: "db_one (filter (\<lambda>r. steam_offer_id r = Some (offer_id (offer1 Declined)))
             (trade_deposits (db (world_of db_deposit31)))) = Inr deposit31"
    by (simp add: db_one_def offer1_def db_deposit31_def deposit31_def)
  have d: "trade_id deposit31 = 31" by (simp add: deposit31_def)
  have e: "trade_deposits (db (world_of db_deposit31)) = [deposit31]"
    by (simp add: db_deposit31_def)
  have w: "world_declined = failDeposit 31 (StringValue ''Trade offer declined'') (world_of db_deposit31)"
    unfolding world_declined_def completeDeposit_Declined[OF a b c] d by simp
  show ?thesis
    unfolding w failDeposit_deposit31[OF e d] by simp
qed

lemma trade_deposits_world_declined_again:
  "trade_deposits (db world_declined_again)
     = [deposit31\<lparr>failed_at := Some 20, failure_details := Some ''Trade offer declined''\<rparr>]"
proof -
  have a: "Active \<in> set COMPLETABLE_STATES" by (simp add: COMPLETABLE_STATES_def)
  have b: "offer_state (offer1 Declined) = Declined" by (simp add: offer1_def)
  have e: "trade_deposits (db (world_declined\<lparr>now := 20\<rparr>))
             = [deposit31\<lparr>failed_at := Some 10, failure_details := Some ''Trade offer declined''\<rparr>]"
    by (simp add: trade_deposits_world_declined)
  have c: "db_one (filter (\<lambda>r. steam_offer_id r = Some (offer_id (offer1 Declined)))
             (trade_deposits (db (world_declined\<lparr>now := 20\<rparr>))))
           = Inr (deposit31\<lparr>failed_at := Some 10, failure_details := Some ''Trade offer declined''\<rparr>)"
    unfolding e by (simp add: db_one_def offer1_def deposit31_def)
  have d: "trade_id (deposit31\<lparr>failed_at := Some 10, failure_details := Some ''Trade offer declined''\<rparr>) = 31"
    by (simp add: deposit31_def)
  have w: "world_declined_again
             = failDeposit 31 (StringValue ''Trade offer declined'') (world_declined\<lparr>now := 20\<rparr>)"
    unfolding world_declined_again_def completeDeposit_Declined[OF a b c] d by simp
  show ?thesis
    unfolding w failDeposit_deposit31[OF e d] by simp
qed

text \<open>
  Claim C8, as stated, at a concrete input: the offer of deposit 31 is declined and the
  failure record is written at time 10; the same transition is handled once more at time
  20, and \<open>failed_at\<close> of the deposit changes from 10 to 20. The update of \<open>fail\<close> has no
  condition on \<open>failed_at\<close>.
\<close>

theorem failure_record_counterexample:
  "map failed_at (trade_deposits (db world_declined)) = [Some 10]
   \<and> map failure_details (trade_deposits (db world_declined)) = [Some ''Trade offer declined'']
   \<and> map failed_at (trade_deposits (db world_declined_again)) = [Some 20]"
  by (simp add: trade_deposits_world_declined trade_deposits_world_declined_again)



text \<open>
  Claim C8, amended: \<open>failed_at\<close> and \<open>failure_details\<close> are written together by one
  update. When every trade has both fields or neither, this still holds after \<open>fail\<close> and
  after a handled offer-state transition of a deposit or of a withdrawal; after
  \<open>failDeposit\<close> or \<open>failWithdrawal\<close> every row of the given id carries the time of the
  call and the message; and a transition whose prior state is not \<open>Active\<close> or
  \<open>CreatedNeedsConfirmation\<close> leaves the world, and so every failure record, unchanged.
\<close>

theorem failure_record_written_together:
  "(failures_paired (db w) \<longrightarrow>
       failures_paired (db (fail tbl i e w))
     \<and> failures_paired (db (snd (completeDeposit offer oldState w)))
     \<and> failures_paired (db (snd (completeWithdrawal offer oldState w))))
   \<and> list_all (\<lambda>r. trade_id r = i \<longrightarrow>
                    failed_at r = Some (now w) \<and> failure_details r = Some (errMessage e))
       (trade_deposits (db (failDeposit i e w)))
   \<and> list_all (\<lambda>r. trade_id r = i \<longrightarrow>
                    failed_at r = Some (now w) \<and> failure_details r = Some (errMessage e))
       (trade_withdrawals (db (failWithdrawal i e w)))
   \<and> (oldState \<notin> set COMPLETABLE_STATES \<longrightarrow>
        completeDeposit offer oldState w = (Returned, w)
      \<and> completeWithdrawal offer oldState w = (Returned, w))"
  using failures_stay_paired failDeposit_sets_both failWithdrawal_sets_both ignored_transitions
  by (intro conjI) 

theorem failure_record_written_together_witness:
  "failures_paired (db (world_of db_deposit31))
   \<and> Accepted \<notin> set COMPLETABLE_STATES
   \<and> failures_paired (db (fail Table_trade_deposits 31 (StringValue ''Trade offer declined'')
                            (world_of db_deposit31)))
   \<and> completeDeposit (offer1 Declined) Accepted (world_of db_deposit31)
       = (Returned, world_of db_deposit31)"
proof -
  have h1: "failures_paired (db (world_of db_deposit31))"
    by (simp add: failures_paired_def failure_paired_def db_deposit31_def deposit31_def)
  have h2: "Accepted \<notin> set COMPLETABLE_STATES" by (simp add: COMPLETABLE_STATES_def)
  note t = failure_record_written_together[of "world_of db_deposit31" Table_trade_deposits 31
         "StringValue ''Trade offer declined''" "offer1 Declined" Accepted]
  from t h1 have p: "failures_paired (db (fail Table_trade_deposits 31
         (StringValue ''Trade offer declined'') (world_of db_deposit31)))" by blast
  from t h2 have q: "completeDeposit (offer1 Declined) Accepted (world_of db_deposit31)
       = (Returned, world_of db_deposit31)" by blast
  from h1 h2 p q show ?thesis by blast
qed


section \<open>Transaction Claimer\<close>

lemma acknowledged_not_unclaimed [simp]:
  "\<not> deposit_unclaimed depositId appId (acknowledge m t r)"
  by (simp add: deposit_unclaimed_def acknowledge_def)

lemma none_unclaimed_after_claim:
  "\<not> list_ex (deposit_unclaimed depositId appId)
       (snd (claim_deposit_rows m depositId appId t rows))"
  by (induction rows) (auto simp: claim_deposit_rows_def Let_def update_where_def)

lemma claim_of_claimed:
  "\<not> list_ex (deposit_unclaimed depositId appId) rows \<Longrightarrow>
   claim_deposit_rows m depositId appId t rows = (Inr None, rows)"
  by (simp add: claim_deposit_rows_def Let_def update_where_none returning_none db_oneOrNone_def)

lemma claim_race_of_claimed:
  "\<not> list_ex (deposit_unclaimed depositId appId) rows \<Longrightarrow>
   filter claimed (claim_race attempts depositId appId rows) = []"
  by (induction attempts) (auto simp: claim_of_claimed)

lemma claim_race_at_most_one:
  "length (filter claimed (claim_race attempts depositId appId rows)) \<le> 1"
proof (cases attempts)
  case Nil
  then show ?thesis by simp
next
  case (Cons a rest)
  obtain m t where a: "a = (m, t)" by (cases a)
  obtain res rows' where c: "claim_deposit_rows m depositId appId t rows = (res, rows')"
    by (cases "claim_deposit_rows m depositId appId t rows")
  have "\<not> list_ex (deposit_unclaimed depositId appId) rows'"
    using none_unclaimed_after_claim[of depositId appId m t rows] c by simp
  then have "filter claimed (claim_race rest depositId appId rows') = []"
    by (rule claim_race_of_claimed)
  then show ?thesis using Cons a c by simp
qed

lemma set_same_table [simp]:
  "set_trade_deposits (trade_deposits (db w)) w = w"
  "set_trade_withdrawals (trade_withdrawals (db w)) w = w"
  by (simp_all add: set_trade_deposits_def set_trade_withdrawals_def)

lemma startDeposit_of_claimed:
  "\<not> list_ex (deposit_unclaimed depositId (app_id (config w))) (trade_deposits (db w)) \<Longrightarrow>
   startDeposit depositId w = (Returned, w)"
  by (simp add: startDeposit_def claim_deposit_def claim_of_claimed split: option.splits)


lemma opskins_getBalance_reply:
  "balance_replies w = r # rest \<Longrightarrow>
   opskins_getBalance w = (r, emit OpskinsGetBalance (w\<lparr>balance_replies := rest\<rparr>))"
  by (simp add: opskins_getBalance_def next_reply_def)

lemma lockWithdrawal_not_lockable:
  assumes "opskins_getBalance w = (Inr b, w1)"
    and "\<not> list_ex (withdrawal_lockable wid b (app_id (config w))) (trade_withdrawals (db w))"
  shows "lockWithdrawal wid m w = (Resolved False, w1)"
proof -
  from opskins_getBalance_frame[OF assms(1)] have f: "db w1 = db w" "config w1 = config w" by simp_all
  have "set_trade_withdrawals (trade_withdrawals (db w1)) w1 = w1" by simp
  then show ?thesis
    using assms f
    by (simp add: lockWithdrawal_def Let_def update_where_none returning_none db_oneOrNone_def)
qed

lemma lockWithdrawal_granted:
  assumes "opskins_getBalance w = (Inr b, w1)"
    and "fst (lockWithdrawal wid m w) = Resolved True"
  shows "list_ex (withdrawal_lockable wid b (app_id (config w))) (trade_withdrawals (db w))"
proof (rule ccontr)
  assume "\<not> list_ex (withdrawal_lockable wid b (app_id (config w))) (trade_withdrawals (db w))"
  from lockWithdrawal_not_lockable[OF assms(1) this] assms(2) show False by simp
qed

lemma lockWithdrawal_balance_error:
  "opskins_getBalance w = (Inl e, w1) \<Longrightarrow> lockWithdrawal wid m w = (Resolved False, w1)"
  by (simp add: lockWithdrawal_def)

lemma startWithdrawal_not_locked:
  "steamID w = Some m \<Longrightarrow> lockWithdrawal wid m w = (Resolved False, w1) \<Longrightarrow>
   startWithdrawal wid w = (Returned, w1)"
  by (simp add: startWithdrawal_def)

lemma startWithdrawal_of_claimed:
  assumes "\<not> list_ex (\<lambda>r. trade_id r = wid \<and> merchant_steam_id r = Some 1) (trade_withdrawals (db w))"
  shows "fst (startWithdrawal wid w) = Returned \<and> db (snd (startWithdrawal wid w)) = db w
       \<and> (trace (snd (startWithdrawal wid w)) = trace w
          \<or> trace (snd (startWithdrawal wid w)) = trace w @ [OpskinsGetBalance])"
proof (cases "steamID w")
  case None
  then show ?thesis by (simp add: startWithdrawal_def)
next
  case (Some m)
  obtain r w1 where bal: "opskins_getBalance w = (r, w1)" by (cases "opskins_getBalance w")
  have tr: "trace w1 = trace w @ [OpskinsGetBalance]"
    using bal by (auto simp: opskins_getBalance_def next_reply_def split: list.splits)
  from opskins_getBalance_frame[OF bal] have f: "db w1 = db w" by simp
  have "lockWithdrawal wid m w = (Resolved False, w1)"
  proof (cases r)
    case (Inl e)
    with bal show ?thesis by (simp add: lockWithdrawal_balance_error)
  next
    case (Inr b)
    have "\<not> list_ex (withdrawal_lockable wid b (app_id (config w))) (trade_withdrawals (db w))"
      using assms by (auto simp: list_ex_iff withdrawal_lockable_def)
    with bal Inr show ?thesis by (simp add: lockWithdrawal_not_lockable)
  qed
  from startWithdrawal_not_locked[OF Some this] tr f show ?thesis by simp
qed


text \<open>
  Claim C3: the claim of a deposit is one conditional update on the rows of the id and the
  application whose \<open>acknowledged_at\<close> is still null. Among any number of attempts of
  merchants for one deposit id and application, run one after the other, at most one gets a
  row back; after an attempt no row of the id is left unclaimed; and \<open>startDeposit\<close> on a
  deposit that is already acknowledged returns with the world exactly as it was: nothing is
  written and no call is made, so no offer is created. The same holds for a withdrawal that
  is no longer owned by the sentinel merchant: \<open>startWithdrawal\<close> returns, the store is
  unchanged, and the only call it can have made is the balance query of the lock.
\<close>

theorem claim_at_most_once:
  "length (filter claimed (claim_race attempts depositId appId rows)) \<le> 1
   \<and> \<not> list_ex (deposit_unclaimed depositId appId)
          (snd (claim_deposit_rows merchantSteamID depositId appId t rows))
   \<and> (\<not> list_ex (deposit_unclaimed depositId (app_id (config w))) (trade_deposits (db w)) \<longrightarrow>
        startDeposit depositId w = (Returned, w))
   \<and> (\<not> list_ex (\<lambda>r. trade_id r = withdrawalId \<and> merchant_steam_id r = Some 1)
            (trade_withdrawals (db w)) \<longrightarrow>
        fst (startWithdrawal withdrawalId w) = Returned
      \<and> db (snd (startWithdrawal withdrawalId w)) = db w
      \<and> (trace (snd (startWithdrawal withdrawalId w)) = trace w
         \<or> trace (snd (startWithdrawal withdrawalId w)) = trace w @ [OpskinsGetBalance]))"
  using claim_race_at_most_one[of attempts depositId appId rows]
        none_unclaimed_after_claim[of depositId appId merchantSteamID t rows]
        startDeposit_of_claimed[of depositId w]
        startWithdrawal_of_claimed[of withdrawalId w]
  by blast

theorem claim_at_most_once_witness:
  "map claimed (claim_race [(7, 10), (8, 11)] 30 730 [deposit30]) = [True, False]
   \<and> length (filter claimed (claim_race [(7, 10), (8, 11)] 30 730 [deposit30])) \<le> 1
   \<and> \<not> list_ex (deposit_unclaimed 31 (app_id (config (world_of db_deposit31))))
          (trade_deposits (db (world_of db_deposit31)))
   \<and> startDeposit 31 (world_of db_deposit31) = (Returned, world_of db_deposit31)
   \<and> \<not> list_ex (\<lambda>r. trade_id r = 31 \<and> merchant_steam_id r = Some 1)
          (trade_withdrawals (db (world_of db_deposit31)))
   \<and> db (snd (startWithdrawal 31 (world_of db_deposit31))) = db (world_of db_deposit31)"
proof -
  have race: "map claimed (claim_race [(7, 10), (8, 11)] 30 730 [deposit30]) = [True, False]"
    by (simp add: claim_deposit_rows_def Let_def returning_def update_where_def db_oneOrNone_def
                  deposit_unclaimed_def acknowledge_def deposit30_def)
  have h1: "\<not> list_ex (deposit_unclaimed 31 (app_id (config (world_of db_deposit31))))
          (trade_deposits (db (world_of db_deposit31)))"
    by (simp add: deposit_unclaimed_def db_deposit31_def deposit31_def)
  have h2: "\<not> list_ex (\<lambda>r. trade_id r = 31 \<and> merchant_steam_id r = Some 1)
          (trade_withdrawals (db (world_of db_deposit31)))"
    by (simp add: db_deposit31_def)
  note t = claim_at_most_once[where depositId = 31 and w = "world_of db_deposit31"
                                and withdrawalId = 31]
  from claim_at_most_once[where attempts = "[(7, 10), (8, 11)]" and depositId = 30
                            and appId = 730 and rows = "[deposit30]"]
  have a: "length (filter claimed (claim_race [(7, 10), (8, 11)] 30 730 [deposit30])) \<le> 1"
    by blast
  from t h1 have b: "startDeposit 31 (world_of db_deposit31) = (Returned, world_of db_deposit31)"
    by blast
  from t h2 have c: "db (snd (startWithdrawal 31 (world_of db_deposit31))) = db (world_of db_deposit31)"
    by blast
  from race a h1 b h2 c show ?thesis by blast
qed

text \<open>
  Claim C4: with the marketplace balance \<open>b\<close> that the balance query returns, the lock of a
  withdrawal is granted only when a row of the id has a total of at most \<open>b\<close>; when every
  row of the id has a total above \<open>b\<close>, the conditional update matches no row, the lock
  resolves \<open>false\<close>, and \<open>startWithdrawal\<close> returns right after the balance query, with
  the store unchanged and no further call.
\<close>

theorem lock_requires_balance:
  assumes "balance_replies w = Inr b # rest"
  shows "(fst (lockWithdrawal wid m w) = Resolved True \<longrightarrow>
            list_ex (\<lambda>r. trade_id r = wid \<and> total r \<le> b) (trade_withdrawals (db w)))
       \<and> (list_all (\<lambda>r. trade_id r = wid \<longrightarrow> b < total r) (trade_withdrawals (db w)) \<longrightarrow>
            lockWithdrawal wid m w
              = (Resolved False, emit OpskinsGetBalance (w\<lparr>balance_replies := rest\<rparr>))
          \<and> (steamID w = Some m \<longrightarrow>
               startWithdrawal wid w
                 = (Returned, emit OpskinsGetBalance (w\<lparr>balance_replies := rest\<rparr>))))"
proof -
  let ?w1 = "emit OpskinsGetBalance (w\<lparr>balance_replies := rest\<rparr>)"
  have bal: "opskins_getBalance w = (Inr b, ?w1)"
    using assms by (rule opskins_getBalance_reply)
  have granted: "fst (lockWithdrawal wid m w) = Resolved True \<longrightarrow>
            list_ex (\<lambda>r. trade_id r = wid \<and> total r \<le> b) (trade_withdrawals (db w))"
  proof
    assume "fst (lockWithdrawal wid m w) = Resolved True"
    from lockWithdrawal_granted[OF bal this]
    show "list_ex (\<lambda>r. trade_id r = wid \<and> total r \<le> b) (trade_withdrawals (db w))"
      by (auto simp: list_ex_iff withdrawal_lockable_def)
  qed
  have refused: "list_all (\<lambda>r. trade_id r = wid \<longrightarrow> b < total r) (trade_withdrawals (db w)) \<longrightarrow>
            lockWithdrawal wid m w = (Resolved False, ?w1)
          \<and> (steamID w = Some m \<longrightarrow> startWithdrawal wid w = (Returned, ?w1))"
  proof
    assume poor: "list_all (\<lambda>r. trade_id r = wid \<longrightarrow> b < total r) (trade_withdrawals (db w))"
    then have "\<not> list_ex (withdrawal_lockable wid b (app_id (config w))) (trade_withdrawals (db w))"
      by (auto simp: list_ex_iff list_all_iff withdrawal_lockable_def)
    from lockWithdrawal_not_lockable[OF bal this]
    have l: "lockWithdrawal wid m w = (Resolved False, ?w1)" .
    then show "lockWithdrawal wid m w = (Resolved False, ?w1)
          \<and> (steamID w = Some m \<longrightarrow> startWithdrawal wid w = (Returned, ?w1))"
      using startWithdrawal_not_locked[of w m wid ?w1] by blast
  qed
  from granted refused show ?thesis by blast
qed


theorem lock_requires_balance_witness:
  "balance_replies world_poor = Inr 400 # []
   \<and> list_all (\<lambda>r. trade_id r = 32 \<longrightarrow> 400 < total r) (trade_withdrawals (db world_poor))
   \<and> steamID world_poor = Some 7
   \<and> startWithdrawal 32 world_poor
       = (Returned, emit OpskinsGetBalance (world_poor\<lparr>balance_replies := []\<rparr>))
   \<and> balance_replies world_rich = Inr 1000 # []
   \<and> fst (lockWithdrawal 32 7 world_rich) = Resolved True
   \<and> list_ex (\<lambda>r. trade_id r = 32 \<and> total r \<le> 1000) (trade_withdrawals (db world_rich))"
proof -
  have p1: "balance_replies world_poor = Inr 400 # []" by (simp add: world_poor_def world_of_def)
  have p2: "list_all (\<lambda>r. trade_id r = 32 \<longrightarrow> 400 < total r) (trade_withdrawals (db world_poor))"
    by (simp add: world_poor_def db_withdrawal32_def withdrawal32_def)
  have p3: "steamID world_poor = Some 7" by (simp add: world_poor_def)
  have r1: "balance_replies world_rich = Inr 1000 # []" by (simp add: world_rich_def world_of_def)
  have r2: "fst (lockWithdrawal 32 7 world_rich) = Resolved True"
    unfolding lockWithdrawal_def opskins_getBalance_reply[OF r1]
    by (simp add: Let_def returning_def db_oneOrNone_def withdrawal_lockable_def world_rich_def
                  db_withdrawal32_def withdrawal32_def cfg0_def)
  from lock_requires_balance[OF p1, of 32 7] p2 p3
  have a: "startWithdrawal 32 world_poor
       = (Returned, emit OpskinsGetBalance (world_poor\<lparr>balance_replies := []\<rparr>))" by blast
  from lock_requires_balance[OF r1, of 32 7] r2
  have b: "list_ex (\<lambda>r. trade_id r = 32 \<and> total r \<le> 1000) (trade_withdrawals (db world_rich))"
    by blast
  from p1 p2 p3 a r1 r2 b show ?thesis by blast
qed

section \<open>Deposit workflow: the inventory of the user\<close>

lemma fetchInventoryItems_no_retry:
  "fetchInventoryItems steamId assetIds False w =
     (case getUserInventoryAsync steamId w of
        (Inr inventory, w1) \<Rightarrow>
          all_requested_present assetIds (filter (\<lambda>item. assetid item \<in> set assetIds) inventory) w1
      | (Inl e, w1) \<Rightarrow> (Inl e, reconnectToSteam w1))"
  by (subst fetchInventoryItems.simps) (simp split: prod.splits sum.splits)

lemma fetchInventoryItems_retry:
  "fetchInventoryItems steamId assetIds True w =
     (case getUserInventoryAsync steamId w of
        (Inr inventory, w1) \<Rightarrow>
          all_requested_present assetIds (filter (\<lambda>item. assetid item \<in> set assetIds) inventory) w1
      | (Inl e, w1) \<Rightarrow>
          (case fetchInventoryItems steamId assetIds False (reconnectToSteam w1) of
             (Inl e2, w2) \<Rightarrow> (Inl e2, w2)
           | (Inr dropped, w2) \<Rightarrow> all_requested_present assetIds [] w2))"
  by (subst fetchInventoryItems.simps) (simp split: prod.splits sum.splits)

text \<open>After a failed first fetch the routine never returns items, whatever the retry
  fetches.\<close>

lemma fetch_after_error_fails:
  assumes "getUserInventoryAsync steamId w = (Inl e, w1)" and "assetIds \<noteq> []"
  shows "\<exists>e'. fst (fetchInventoryItems steamId assetIds True w) = Inl e'"
  using assms
  by (auto simp: fetchInventoryItems_retry all_requested_present_def split: prod.splits sum.splits)

lemma getUserInventoryAsync_reply:
  "inventory_replies w = r # rest \<Longrightarrow>
   getUserInventoryAsync s w = (r, emit (SteamGetInventory s) (w\<lparr>inventory_replies := rest\<rparr>))"
  by (simp add: getUserInventoryAsync_def next_reply_def)

lemma fetch_stale:
  "fetchInventoryItems 42 [''9001''] True (set_trade_deposits rows world_stale_session)
     = (Inl (Error ''One or more requested items do not exist in inventory''),
        emit (SteamGetInventory 42) (reconnectToSteam (emit (SteamGetInventory 42)
          ((set_trade_deposits rows world_stale_session)\<lparr>inventory_replies := []\<rparr>))))"
proof -
  have r1: "inventory_replies (set_trade_deposits rows world_stale_session)
              = Inl (Error ''Not Logged In'') # [Inr [item_ak]]"
    by (simp add: set_trade_deposits_def world_stale_session_def world_of_def)
  have r2: "inventory_replies (reconnectToSteam (emit (SteamGetInventory 42)
              ((set_trade_deposits rows world_stale_session)\<lparr>inventory_replies := [Inr [item_ak]]\<rparr>)))
              = Inr [item_ak] # []"
    by (simp add: reconnectToSteam_def emit_def)
  show ?thesis
    unfolding fetchInventoryItems_retry getUserInventoryAsync_reply[OF r1]
    apply (simp only: prod.case sum.case)
    unfolding fetchInventoryItems_no_retry getUserInventoryAsync_reply[OF r2]
    by (simp add: all_requested_present_def item_ak_def reconnectToSteam_def emit_def)
qed


lemma world_stale_session_fields:
  "steamID world_stale_session = Some 7"
  "now world_stale_session = 10"
  "config world_stale_session = cfg0"
  "trace world_stale_session = []"
  "db world_stale_session = db_deposit30"
  by (simp_all add: world_stale_session_def)

lemma claim_stale:
  "claim_deposit 7 30 world_stale_session
     = (Inr (Some (acknowledge 7 10 deposit30)),
        set_trade_deposits [acknowledge 7 10 deposit30] world_stale_session)"
  by (simp add: claim_deposit_def claim_deposit_rows_def Let_def returning_def update_where_def
                db_oneOrNone_def deposit_unclaimed_def world_stale_session_fields
                db_deposit30_def deposit30_def cfg0_def)

lemma startDeposit_stale:
  "startDeposit 30 world_stale_session
     = (Returned,
        failDeposit 30 (Error ''One or more requested items do not exist in inventory'')
          (emit (SteamGetInventory 42) (reconnectToSteam (emit (SteamGetInventory 42)
             ((set_trade_deposits [acknowledge 7 10 deposit30] world_stale_session)
                \<lparr>inventory_replies := []\<rparr>)))))"
proof -
  have tables: "users (db world_stale_session) = [user42]"
    "trade_deposit_items (db world_stale_session)
       = [\<lparr> trade_deposit_id = 30, deposit_steam_asset_id = ''9001'' \<rparr>]"
    by (simp_all add: world_stale_session_fields db_deposit30_def)
  have k: "user_steam_id (acknowledge 7 10 deposit30) = 42"
    "trade_id (acknowledge 7 10 deposit30) = 30"
    "steam_id user42 = 42" "\<not> falsy (trade_link_url user42)"
    by (simp_all add: acknowledge_def deposit30_def user42_def falsy_def)
  show ?thesis
    unfolding startDeposit_def
    by (simp add: world_stale_session_fields(1) claim_stale tables k db_one_def db_many_def
                  fetch_stale)
qed

text \<open>
  Claim C7 at a concrete input. Merchant 7 starts deposit 30, which requests the asset
  \<open>9001\<close> of user 42. The first fetch of the inventory fails on a stale session; after the
  new session the second fetch succeeds and returns the requested asset, as the run of the
  retry on its own shows. \<open>_fetchInventoryItems\<close> drops what the retry returned and
  compares the empty list with the request, so it throws \<open>One or more requested items do
  not exist in inventory\<close>, and \<open>startDeposit\<close> writes that as the permanent failure of
  the deposit, where the claim lets the deposit proceed with the fetched items. No offer
  is created.
\<close>

theorem refetched_inventory_is_dropped:
  "fst (fetchInventoryItems 42 [''9001''] False
          (reconnectToSteam (snd (getUserInventoryAsync 42 world_stale_session))))
     = Inr [item_ak]
   \<and> fst (fetchInventoryItems 42 [''9001''] True world_stale_session)
       = Inl (Error ''One or more requested items do not exist in inventory'')
   \<and> fst (startDeposit 30 world_stale_session) = Returned
   \<and> map failure_details (trade_deposits (db (snd (startDeposit 30 world_stale_session))))
       = [Some ''One or more requested items do not exist in inventory'']
   \<and> trace (snd (startDeposit 30 world_stale_session))
       = [SteamGetInventory 42, SteamWebLogOn, SteamGetInventory 42]"
proof -
  have r1: "inventory_replies world_stale_session = Inl (Error ''Not Logged In'') # [Inr [item_ak]]"
    by (simp add: world_stale_session_def world_of_def)
  have r2: "inventory_replies (reconnectToSteam (emit (SteamGetInventory 42)
              (world_stale_session\<lparr>inventory_replies := [Inr [item_ak]]\<rparr>)))
              = Inr [item_ak] # []"
    by (simp add: reconnectToSteam_def emit_def)
  have a: "fst (fetchInventoryItems 42 [''9001''] False
          (reconnectToSteam (snd (getUserInventoryAsync 42 world_stale_session))))
     = Inr [item_ak]"
    unfolding getUserInventoryAsync_reply[OF r1] snd_conv fetchInventoryItems_no_retry
              getUserInventoryAsync_reply[OF r2]
    by (simp add: all_requested_present_def item_ak_def)
  have "set_trade_deposits (trade_deposits (db world_stale_session)) world_stale_session
          = world_stale_session" by simp
  with fetch_stale[of "trade_deposits (db world_stale_session)"]
  have b: "fst (fetchInventoryItems 42 [''9001''] True world_stale_session)
       = Inl (Error ''One or more requested items do not exist in inventory'')"
    by simp
  have c: "fst (startDeposit 30 world_stale_session) = Returned"
    by (simp add: startDeposit_stale)
  have d: "map failure_details (trade_deposits (db (snd (startDeposit 30 world_stale_session))))
       = [Some ''One or more requested items do not exist in inventory'']"
    by (simp add: startDeposit_stale failDeposit_def fail_rows update_where_def acknowledge_def
                  deposit30_def)
  have e: "trace (snd (startDeposit 30 world_stale_session))
       = [SteamGetInventory 42, SteamWebLogOn, SteamGetInventory 42]"
    by (simp add: startDeposit_stale failDeposit_def fail_def Let_def reconnectToSteam_def
                  world_stale_session_fields)
  from a b c d e show ?thesis by blast
qed


section \<open>Withdrawal workflow: the checks before the sourcing\<close>

lemma marketplace_calls_emit [simp]:
  "marketplace_calls (emit e w)
     = marketplace_calls w @ (if marketplace_call e then [e] else [])"
  by (simp add: marketplace_calls_def)

lemma marketplace_calls_frame [simp]:
  "marketplace_calls (set_trade_deposits rows w) = marketplace_calls w"
  "marketplace_calls (set_trade_withdrawals rows w) = marketplace_calls w"
  "marketplace_calls (set_users urows w) = marketplace_calls w"
  "marketplace_calls (reconnectToSteam w) = marketplace_calls w"
  "marketplace_calls (waitAsync n w) = marketplace_calls w"
  by (simp_all add: marketplace_calls_def reconnectToSteam_def)

lemma lockWithdrawal_calls:
  "lockWithdrawal wid m w = (r, w1) \<Longrightarrow>
     marketplace_calls w1 = marketplace_calls w @ [OpskinsGetBalance]"
  by (auto simp: lockWithdrawal_def opskins_getBalance_def next_reply_def Let_def
                 marketplace_calls_def
           split: list.splits sum.splits option.splits if_splits)

lemma getUserDetailsAsync_calls:
  "getUserDetailsAsync w = (r, w') \<Longrightarrow> marketplace_calls w' = marketplace_calls w"
  by (auto simp: getUserDetailsAsync_def next_reply_def marketplace_calls_def split: list.splits)

lemma getUserDetails_retry_db:
  "getUserDetails_retry w = (r, w') \<Longrightarrow> db w' = db w"
  by (auto simp: getUserDetails_retry_def split: prod.splits sum.splits
           dest!: getUserDetailsAsync_frame)

lemma getUserDetails_retry_calls:
  "getUserDetails_retry w = (r, w') \<Longrightarrow> marketplace_calls w' = marketplace_calls w"
  by (auto simp: getUserDetails_retry_def split: prod.splits sum.splits
           dest!: getUserDetailsAsync_calls)

lemma string_of_nat_3: "string_of_nat 3 = ''3''"
  by (subst string_of_nat.simps) (simp add: digit_char_def)

lemma string_of_MAX_WITHDRAWAL_SIZE: "string_of_nat MAX_WITHDRAWAL_SIZE = ''3''"
  by (simp add: MAX_WITHDRAWAL_SIZE_def string_of_nat_3)

lemma withdrawal_items_too_many:
  "length (filter (\<lambda>i. trade_withdrawal_id i = wid) (trade_withdrawal_items (db w)))
     > MAX_WITHDRAWAL_SIZE \<Longrightarrow>
   withdrawal_items wid m withdrawal w
     = (Returned, failWithdrawal (trade_id withdrawal)
                    (StringValue ''Please choose a maximum of 3 items.'') w)"
  by (auto simp: withdrawal_items_def db_many_def string_of_MAX_WITHDRAWAL_SIZE)

lemma getUserDetailsAsync_reply:
  "details_replies w = r # rest \<Longrightarrow>
   getUserDetailsAsync w = (r, emit SteamGetUserDetails (w\<lparr>details_replies := rest\<rparr>))"
  by (simp add: getUserDetailsAsync_def next_reply_def)

lemma world_four_items_fields:
  "steamID (world_four_items u) = Some 7"
  "balance_replies (world_four_items u) = Inr 1000 # []"
  "trace (world_four_items u) = []"
  by (simp_all add: world_four_items_def world_of_def)

lemma lock_four_items:
  "lockWithdrawal 33 7 (world_four_items u) = (Resolved True, world_four_locked u)"
  unfolding lockWithdrawal_def opskins_getBalance_reply[OF world_four_items_fields(2)]
  by (simp add: Let_def returning_def update_where_def db_oneOrNone_def withdrawal_lockable_def
                world_four_locked_def world_four_items_def db_withdrawal33_def withdrawal33_def
                cfg0_def)

lemma world_four_locked_fields:
  "trade_withdrawals (db (world_four_locked u)) = [(withdrawal33 u)\<lparr>merchant_steam_id := Some 7\<rparr>]"
  "users (db (world_four_locked u)) = [user42, user43]"
  "length (filter (\<lambda>i. trade_withdrawal_id i = 33)
            (trade_withdrawal_items (db (world_four_locked u)))) = 4"
  "details_replies (emit e (world_four_locked u)) = Inr unrestricted # []"
  "marketplace_calls (world_four_locked u) = [OpskinsGetBalance]"
  "trace (world_four_locked u) = [OpskinsGetBalance]"
  by (simp_all add: world_four_locked_def world_four_items_def db_withdrawal33_def emit_def
                    world_of_def set_trade_withdrawals_def marketplace_calls_def)

lemma withdrawal33_fields [simp]:
  "user_steam_id ((withdrawal33 u)\<lparr>merchant_steam_id := Some 7\<rparr>) = u"
  "trade_id ((withdrawal33 u)\<lparr>merchant_steam_id := Some 7\<rparr>) = 33"
  by (simp_all add: withdrawal33_def)

lemma user_fields:
  "steam_id user42 = 42" "steam_id user43 = 43"
  "trade_link_url user42 = Some ''https://trade.example/42''" "trade_link_url user43 = None"
  by (simp_all add: user42_def user43_def)

lemma select_four_items:
  "db_oneOrNone (filter (\<lambda>r. trade_id r = 33 \<and> merchant_steam_id r = Some 7)
                        (trade_withdrawals (db (world_four_locked u))))
     = Inr (Some ((withdrawal33 u)\<lparr>merchant_steam_id := Some 7\<rparr>))"
  by (simp add: world_four_locked_fields db_oneOrNone_def withdrawal33_def del: withdrawal33_fields)

lemma user_four_items:
  "db_one (filter (\<lambda>x. steam_id x = user_steam_id ((withdrawal33 42)\<lparr>merchant_steam_id := Some 7\<rparr>))
                  (users (db (world_four_locked 42)))) = Inr user42"
  "db_one (filter (\<lambda>x. steam_id x = user_steam_id ((withdrawal33 43)\<lparr>merchant_steam_id := Some 7\<rparr>))
                  (users (db (world_four_locked 43)))) = Inr user43"
  by (simp_all add: world_four_locked_fields db_one_def user_fields)

lemma details_four_items:
  "getUserDetails_retry (emit (SteamCreateOffer (the (trade_link_url user42))) (world_four_locked 42))
     = (Inr unrestricted, world_four_checked)"
  unfolding getUserDetails_retry_def getUserDetailsAsync_reply[OF world_four_locked_fields(4)]
  by (simp add: world_four_checked_def user42_def)

lemma startWithdrawal_no_link:
  "startWithdrawal 33 (world_four_items 43)
     = (Returned, failWithdrawal 33 (StringValue ''Please set your Trade URL to proceed'')
                    (world_four_locked 43))"
  by (simp add: startWithdrawal_def world_four_items_fields lock_four_items
                withdrawal_checks_def world_four_locked_fields db_one_def db_oneOrNone_def
                user_fields falsy_def)

lemma failWithdrawal_33:
  "trade_withdrawals (db w) = [r] \<Longrightarrow> trade_id r = 33 \<Longrightarrow>
   map failure_details (trade_withdrawals (db (failWithdrawal 33 e w))) = [Some (errMessage e)]"
  by (simp add: failWithdrawal_def fail_rows update_where_def)

text \<open>
  Claim C5, as stated, at concrete inputs. A withdrawal of four items for user 42, who has
  a trade link and an unrestricted profile, fails with the count-limit message, but one
  marketplace call has been made before: the balance query of the lock, which
  \<open>startWithdrawal\<close> runs first. The same withdrawal for user 43, who has no trade link,
  fails with \<open>Please set your Trade URL to proceed\<close> and never reaches the count check.
\<close>

theorem count_limit_counterexample:
  "map failure_details (trade_withdrawals (db (snd (startWithdrawal 33 (world_four_items 42)))))
     = [Some ''Please choose a maximum of 3 items.'']
   \<and> marketplace_calls (snd (startWithdrawal 33 (world_four_items 42))) = [OpskinsGetBalance]
   \<and> map failure_details (trade_withdrawals (db (snd (startWithdrawal 33 (world_four_items 43)))))
     = [Some ''Please set your Trade URL to proceed'']"
proof -
  have checked: "trade_withdrawals (db world_four_checked)
                   = [(withdrawal33 42)\<lparr>merchant_steam_id := Some 7\<rparr>]"
    "marketplace_calls world_four_checked = [OpskinsGetBalance]"
    "length (filter (\<lambda>i. trade_withdrawal_id i = 33)
               (trade_withdrawal_items (db world_four_checked))) > MAX_WITHDRAWAL_SIZE"
    by (simp_all add: world_four_checked_def world_four_locked_fields MAX_WITHDRAWAL_SIZE_def
                      marketplace_calls_def emit_def)
  have run: "startWithdrawal 33 (world_four_items 42)
     = (Returned, failWithdrawal 33 (StringValue ''Please choose a maximum of 3 items.'')
                    world_four_checked)"
    using withdrawal_items_too_many[OF checked(3), of 7 "(withdrawal33 42)\<lparr>merchant_steam_id := Some 7\<rparr>"]
    using details_four_items
    by (simp add: startWithdrawal_def world_four_items_fields lock_four_items
                  withdrawal_checks_def world_four_locked_fields(1,2) db_one_def db_oneOrNone_def
                  user_fields falsy_def unrestricted_def)
  have id33: "\<And>u. trade_id ((withdrawal33 u)\<lparr>merchant_steam_id := Some 7\<rparr>) = 33"
    by simp
  have a: "map failure_details (trade_withdrawals (db (snd (startWithdrawal 33 (world_four_items 42)))))
     = [Some ''Please choose a maximum of 3 items.'']"
    unfolding run snd_conv using failWithdrawal_33[OF checked(1) id33] by simp
  have b: "marketplace_calls (snd (startWithdrawal 33 (world_four_items 42))) = [OpskinsGetBalance]"
    unfolding run snd_conv by (simp add: failWithdrawal_def fail_def Let_def checked(2))
  have c: "map failure_details (trade_withdrawals (db (snd (startWithdrawal 33 (world_four_items 43)))))
     = [Some ''Please set your Trade URL to proceed'']"
    unfolding startWithdrawal_no_link snd_conv
    using failWithdrawal_33[OF world_four_locked_fields(1) id33] by simp
  from a b c show ?thesis by blast
qed


text \<open>
  Claim C5, amended: for every withdrawal that the merchant has locked, whose user has a
  trade link and whose profile is fetched and shows neither probation nor a trade hold,
  and whose requested item count exceeds the maximum of 3, the workflow fails permanently
  with \<open>Please choose a maximum of 3 items.\<close>, and the only marketplace call it has
  made is the balance query of the lock: no search, purchase or withdrawal call occurs.
\<close>

theorem count_limit_failure:
  assumes "steamID w = Some m"
    and "lockWithdrawal wid m w = (Resolved True, w1)"
    and "db_oneOrNone (filter (\<lambda>r. trade_id r = wid \<and> merchant_steam_id r = Some m)
                              (trade_withdrawals (db w1))) = Inr (Some withdrawal)"
    and "db_one (filter (\<lambda>u. steam_id u = user_steam_id withdrawal) (users (db w1))) = Inr user"
    and "\<not> falsy (trade_link_url user)"
    and "getUserDetails_retry (emit (SteamCreateOffer (the (trade_link_url user))) w1)
           = (Inr userDetails, w2)"
    and "\<not> them_probation userDetails"
    and "them_escrowDays userDetails = 0"
    and "length (filter (\<lambda>i. trade_withdrawal_id i = wid) (trade_withdrawal_items (db w1)))
           > MAX_WITHDRAWAL_SIZE"
  shows "startWithdrawal wid w
           = (Returned, failWithdrawal (trade_id withdrawal)
                          (StringValue ''Please choose a maximum of 3 items.'') w2)
       \<and> marketplace_calls w2 = marketplace_calls w @ [OpskinsGetBalance]"
proof -
  from getUserDetails_retry_db[OF assms(6)] getUserDetails_retry_calls[OF assms(6)]
  have f: "db w2 = db w1" "marketplace_calls w2 = marketplace_calls w1" by simp_all
  have items: "withdrawal_items wid m withdrawal w2
     = (Returned, failWithdrawal (trade_id withdrawal)
                    (StringValue ''Please choose a maximum of 3 items.'') w2)"
    using assms(9) f(1) by (simp add: withdrawal_items_too_many)
  have checks: "withdrawal_checks wid m withdrawal w1
     = (Returned, failWithdrawal (trade_id withdrawal)
                    (StringValue ''Please choose a maximum of 3 items.'') w2)"
    using assms(4-8) items by (simp add: withdrawal_checks_def)
  have "startWithdrawal wid w
           = (Returned, failWithdrawal (trade_id withdrawal)
                          (StringValue ''Please choose a maximum of 3 items.'') w2)"
    using assms(1-3) checks by (simp add: startWithdrawal_def)
  moreover have "marketplace_calls w2 = marketplace_calls w @ [OpskinsGetBalance]"
    using lockWithdrawal_calls[OF assms(2)] f(2) by simp
  ultimately show ?thesis by simp
qed


theorem count_limit_failure_witness:
  "steamID (world_four_items 42) = Some 7
   \<and> lockWithdrawal 33 7 (world_four_items 42) = (Resolved True, world_four_locked 42)
   \<and> \<not> falsy (trade_link_url user42)
   \<and> getUserDetails_retry (emit (SteamCreateOffer (the (trade_link_url user42)))
                              (world_four_locked 42)) = (Inr unrestricted, world_four_checked)
   \<and> \<not> them_probation unrestricted \<and> them_escrowDays unrestricted = 0
   \<and> length (filter (\<lambda>i. trade_withdrawal_id i = 33)
               (trade_withdrawal_items (db (world_four_locked 42)))) > MAX_WITHDRAWAL_SIZE
   \<and> startWithdrawal 33 (world_four_items 42)
       = (Returned, failWithdrawal (trade_id ((withdrawal33 42)\<lparr>merchant_steam_id := Some 7\<rparr>))
                      (StringValue ''Please choose a maximum of 3 items.'') world_four_checked)
   \<and> marketplace_calls world_four_checked
       = marketplace_calls (world_four_items 42) @ [OpskinsGetBalance]"
proof -
  have h5: "\<not> falsy (trade_link_url user42)" by (simp add: falsy_def user42_def)
  have h7: "\<not> them_probation unrestricted" and h8: "them_escrowDays unrestricted = 0"
    by (simp_all add: unrestricted_def)
  have h9: "length (filter (\<lambda>i. trade_withdrawal_id i = 33)
               (trade_withdrawal_items (db (world_four_locked 42)))) > MAX_WITHDRAWAL_SIZE"
    by (simp add: world_four_locked_fields MAX_WITHDRAWAL_SIZE_def)
  from count_limit_failure[OF world_four_items_fields(1) lock_four_items select_four_items
         user_four_items(1) h5 details_four_items h7 h8 h9]
       world_four_items_fields(1) lock_four_items h5 details_four_items h7 h8 h9
  show ?thesis by blast
qed


section \<open>Marketplace Bridge: purchase-and-import\<close>

lemma searchOpskins_reply:
  "search_replies w = r # rest \<Longrightarrow>
   searchOpskins name w = (r, emit (OpskinsSearch name) (w\<lparr>search_replies := rest\<rparr>))"
  by (simp add: searchOpskins_def next_reply_def)

lemma search_with_retries_first:
  "search_replies w = Inr results # rest \<Longrightarrow>
   search_with_retries item w
     = (Some results, emit (OpskinsSearch (js_key item)) (w\<lparr>search_replies := rest\<rparr>))"
  by (simp add: search_with_retries_def searchOpskins_reply)

lemma searchOpskins_no_purchase:
  "searchOpskins name w = (r, w1) \<Longrightarrow>
     filter is_purchase (trace w1) = filter is_purchase (trace w) \<and> buy_replies w1 = buy_replies w"
  by (auto simp: searchOpskins_def next_reply_def emit_def split: list.splits)

lemma waitAsync_no_purchase [simp]:
  "filter is_purchase (trace (waitAsync n w)) = filter is_purchase (trace w)"
  "buy_replies (waitAsync n w) = buy_replies w"
  by (simp_all add: waitAsync_def emit_def)

lemma search_with_retries_no_purchase:
  "search_with_retries item w = (r, w1) \<Longrightarrow>
     filter is_purchase (trace w1) = filter is_purchase (trace w) \<and> buy_replies w1 = buy_replies w"
  unfolding search_with_retries_def
  by (auto split: prod.splits sum.splits dest!: searchOpskins_no_purchase)

lemma buy_loop_too_expensive:
  assumes "i < n" and "searches < RPM * 4"
    and "spPriceData (js_key (nth_opt names i)) = Some safe_price"
    and "search_with_retries (nth_opt names i) w = (Some (r0 # rest), w1)"
    and "too_expensive r0 safe_price"
  shows "buy_loop n names spPriceData i searches purchases balance' w = (ResolvedEmpty, w1)"
  using assms by (subst buy_loop.simps) (simp add: Let_def)

lemma buy_loop_empty_result:
  assumes "i < n" and "searches < RPM * 4"
    and "spPriceData (js_key (nth_opt names i)) = Some safe_price"
    and "search_with_retries (nth_opt names i) w = (Some [], w1)"
  shows "buy_loop n names spPriceData i searches purchases balance' w = (Thrown TypeError_amount, w1)"
  using assms by (subst buy_loop.simps) (simp add: Let_def)

lemma buy_loop_done:
  "\<not> (i < n \<and> searches < RPM * 4) \<Longrightarrow>
   buy_loop n names spPriceData i searches purchases balance' w = (Finished purchases, w)"
  by (subst buy_loop.simps) auto

lemma buyPlaceholderItems_loop:
  assumes "opskins_key (config w) \<noteq> []"
    and "opskins_getBalance w = (Inr b, w1)"
    and "getDbCentPrices 0 10000 (db w1) = Some spPriceData"
    and "buy_loop n names spPriceData 0 0 [] b w1 = (res, w2)"
  shows "buyPlaceholderItems n names m w =
           (case res of
              ResolvedEmpty \<Rightarrow> ((Resolved [], names), w2)
            | Thrown e \<Rightarrow> ((Pending, names), w2)
            | Finished purchases \<Rightarrow>
                if purchases \<noteq> [] \<and> n = length purchases
                then import_purchases n names purchases m w2
                else ((Resolved [], names), w2))"
  using assms by (simp add: buyPlaceholderItems_def split: loop_result.splits)

text \<open>A shortfall of purchases at the end of the loop: the promise resolves with the
  empty array.\<close>

lemma buyPlaceholderItems_shortfall:
  assumes "opskins_key (config w) \<noteq> []"
    and "opskins_getBalance w = (Inr b, w1)"
    and "getDbCentPrices 0 10000 (db w1) = Some spPriceData"
    and "buy_loop n names spPriceData 0 0 [] b w1 = (Finished purchases, w2)"
    and "length purchases < n"
  shows "buyPlaceholderItems n names m w = ((Resolved [], names), w2)"
  using buyPlaceholderItems_loop[OF assms(1-4)] assms(5) by simp

text \<open>An empty result of the sourcing: no offer is created, the failure is written, and
  the scan of the marketplace inventory and the relisting are started.\<close>

lemma withdrawal_items_nothing_sourced:
  assumes "db_many (filter (\<lambda>i. trade_withdrawal_id i = wid) (trade_withdrawal_items (db w)))
             = Inr withdrawalItems"
    and "length withdrawalItems \<le> MAX_WITHDRAWAL_SIZE"
    and "buyPlaceholderItems (length withdrawalItems) (item_names withdrawal) m w
           = ((Resolved [], names'), w1)"
  shows "withdrawal_items wid m withdrawal w
           = (Returned,
              emit (ListAgainItems names')
                (emit (OpskinsCheckUserInventory names')
                   (failWithdrawal (trade_id withdrawal)
                      (StringValue ''Failed to complete withdrawal, please try again later.'') w1)))"
proof -
  from assms(1) have "withdrawalItems \<noteq> []" by (auto simp: db_many_def split: if_splits)
  with assms show ?thesis by (simp add: withdrawal_items_def)
qed

lemma withdrawal_items_pending:
  assumes "db_many (filter (\<lambda>i. trade_withdrawal_id i = wid) (trade_withdrawal_items (db w)))
             = Inr withdrawalItems"
    and "length withdrawalItems \<le> MAX_WITHDRAWAL_SIZE"
    and "buyPlaceholderItems (length withdrawalItems) (item_names withdrawal) m w
           = ((Pending, names'), w1)"
  shows "withdrawal_items wid m withdrawal w = (NeverSettles, w1)"
proof -
  from assms(1) have "withdrawalItems \<noteq> []" by (auto simp: db_many_def split: if_splits)
  with assms show ?thesis by (simp add: withdrawal_items_def)
qed


lemma world_guarded_fields:
  "balance_replies world_guarded = Inr 1000 # []"
  "opskins_key (config world_guarded) \<noteq> []"
  by (simp_all add: world_guarded_def world_of_def cfg0_def)

lemma world_guarded_loop_fields:
  "search_replies world_guarded_loop = Inr [listing400] # []"
  "db world_guarded_loop = db_withdrawal32"
  "trace world_guarded_loop = [OpskinsGetBalance]"
  by (simp_all add: world_guarded_loop_def world_guarded_def world_of_def emit_def)

lemmas sourcing_defs =
  startWithdrawal_def lockWithdrawal_def opskins_getBalance_def next_reply_def Let_def
  returning_def update_where_def db_oneOrNone_def db_one_def db_many_def
  withdrawal_lockable_def set_trade_withdrawals_def withdrawal_checks_def falsy_def
  getUserDetails_retry_def getUserDetailsAsync_def withdrawal_items_def MAX_WITHDRAWAL_SIZE_def
  buyPlaceholderItems_def getDbCentPrices_def add_db_price_def
  buy_loop.simps RPM_def nth_opt_def js_key_def search_with_retries_def searchOpskins_def
  too_expensive_def buy_with_fallback_def affordable_def buyOpskinsItem_def
  import_purchases_def withdraw_with_retries_def withdrawOpskinsItems_def
  inventory_with_retry_def getUserInventoryAsync_def waitAsync_def emit_def
  world_of_def cfg0_def db_withdrawal32_def withdrawal32_def user42_def unrestricted_def
  item_ak_def listing399_def

text \<open>
  Claim C1, as stated, at a concrete input. The cached safe price of the item is 100 and
  the cheapest listing costs 399, which exceeds 1.05 times the safe price. A search result
  has the fields of \<open>OpskinsSearchResult\<close> and no quantity: the guard of line 754 compares
  the \<open>amount\<close>, the price of the listing, with 400 and with 1.05 times the safe price.
  So however many units are available (say 400, which meets the condition of the
  specification), the guard does not fire on a price below 400: the listing is bought and
  the item is returned.
\<close>

theorem purchase_guard_counterexample:
  "spec_purchase_forbidden (amount listing399) 400 100
   \<and> getDbCentPrices 0 10000 (db world_gap) = Some [''AK-47'' \<mapsto> 100]
   \<and> fst (buyPlaceholderItems 1 [''AK-47''] 7 world_gap) = (Resolved [item_ak], [])
   \<and> trace (snd (buyPlaceholderItems 1 [''AK-47''] 7 world_gap))
       = [OpskinsGetBalance, OpskinsSearch ''AK-47'', OpskinsBuy 555 399 ''AK-47'',
          OpskinsWithdrawItems [777], Wait 2, SteamGetInventory 7]"
proof -
  have a: "spec_purchase_forbidden (amount listing399) 400 100"
    by (simp add: spec_purchase_forbidden_def listing399_def)
  have b: "getDbCentPrices 0 10000 (db world_gap) = Some [''AK-47'' \<mapsto> 100]"
    by (simp add: world_gap_def prices32)
  have c: "fst (buyPlaceholderItems 1 [''AK-47''] 7 world_gap) = (Resolved [item_ak], [])"
    by (simp add: sourcing_defs world_gap_def)
  have d: "trace (snd (buyPlaceholderItems 1 [''AK-47''] 7 world_gap))
       = [OpskinsGetBalance, OpskinsSearch ''AK-47'', OpskinsBuy 555 399 ''AK-47'',
          OpskinsWithdrawItems [777], Wait 2, SteamGetInventory 7]"
    by (simp add: sourcing_defs world_gap_def)
  from a b c d show ?thesis by blast
qed


text \<open>
  Claim C1, amended: in purchase-and-import, for every requested item name whose search
  returns listings, the purchase does not proceed when the price of the cheapest listing is
  at least 400 minor units and at least 1.05 times the cached safe price of the name: the
  loop ends at once with the batch aborted and no purchase call made for that name, and a
  batch aborted by the loop returns zero items.
\<close>

theorem purchase_guard_aborts:
  assumes "i < n" and "searches < RPM * 4"
    and "spPriceData (js_key (nth_opt names i)) = Some safe_price"
    and "search_with_retries (nth_opt names i) w = (Some (r0 # rest), w1)"
    and "amount r0 \<ge> 400"
    and "of_int (amount r0) \<ge> of_int safe_price * (105 / 100 :: rat)"
  shows "buy_loop n names spPriceData i searches purchases balance' w = (ResolvedEmpty, w1)
       \<and> filter is_purchase (trace w1) = filter is_purchase (trace w)
       \<and> (opskins_key (config w0) \<noteq> [] \<and> opskins_getBalance w0 = (Inr b, wa)
            \<and> getDbCentPrices 0 10000 (db wa) = Some sp
            \<and> buy_loop n' names' sp 0 0 [] b wa = (ResolvedEmpty, wb)
          \<longrightarrow> buyPlaceholderItems n' names' m w0 = ((Resolved [], names'), wb))"
proof -
  have "too_expensive r0 safe_price" using assms(5,6) by (simp add: too_expensive_def)
  from buy_loop_too_expensive[where spPriceData = spPriceData and names = names and i = i,
         OF assms(1-4) this]
  have a: "buy_loop n names spPriceData i searches purchases balance' w = (ResolvedEmpty, w1)" .
  from search_with_retries_no_purchase[OF assms(4)]
  have b: "filter is_purchase (trace w1) = filter is_purchase (trace w)" by simp
  have c: "opskins_key (config w0) \<noteq> [] \<and> opskins_getBalance w0 = (Inr b, wa)
            \<and> getDbCentPrices 0 10000 (db wa) = Some sp
            \<and> buy_loop n' names' sp 0 0 [] b wa = (ResolvedEmpty, wb)
          \<longrightarrow> buyPlaceholderItems n' names' m w0 = ((Resolved [], names'), wb)"
    using buyPlaceholderItems_loop[of w0 b wa sp n' names' ResolvedEmpty wb m] by simp
  from a b c show ?thesis by blast
qed

theorem purchase_guard_aborts_witness:
  "(0::nat) < 1 \<and> (0::nat) < RPM * 4
   \<and> [''AK-47'' \<mapsto> (100::int)] (js_key (nth_opt [''AK-47''] 0)) = Some 100
   \<and> search_with_retries (nth_opt [''AK-47''] 0) world_guarded_loop
       = (Some (listing400 # []), world_guarded_searched)
   \<and> amount listing400 \<ge> 400
   \<and> rat_of_int (amount listing400) \<ge> of_int 100 * (105 / 100)
   \<and> buy_loop 1 [''AK-47''] [''AK-47'' \<mapsto> 100] 0 0 [] 1000 world_guarded_loop
       = (ResolvedEmpty, world_guarded_searched)
   \<and> filter is_purchase (trace world_guarded_searched) = []
   \<and> buyPlaceholderItems 1 [''AK-47''] 7 world_guarded
       = ((Resolved [], [''AK-47'']), world_guarded_searched)"
proof -
  have h1: "(0::nat) < 1" and h2: "(0::nat) < RPM * 4" by (simp_all add: RPM_def)
  have h3: "[''AK-47'' \<mapsto> (100::int)] (js_key (nth_opt [''AK-47''] 0)) = Some 100"
    by (simp add: js_key_def nth_opt_def)
  have key: "js_key (nth_opt [''AK-47''] 0) = ''AK-47''" by (simp add: js_key_def nth_opt_def)
  have h4: "search_with_retries (nth_opt [''AK-47''] 0) world_guarded_loop
       = (Some (listing400 # []), world_guarded_searched)"
    unfolding search_with_retries_first[OF world_guarded_loop_fields(1)] key
              world_guarded_searched_def ..
  have h5: "amount listing400 \<ge> 400" by (simp add: listing400_def)
  have h6: "rat_of_int (amount listing400) \<ge> of_int 100 * (105 / 100)"
    by (simp add: listing400_def)
  have bal: "opskins_getBalance world_guarded = (Inr 1000, world_guarded_loop)"
    unfolding opskins_getBalance_reply[OF world_guarded_fields(1)] world_guarded_loop_def ..
  have prices: "getDbCentPrices 0 10000 (db world_guarded_loop) = Some [''AK-47'' \<mapsto> 100]"
    by (simp add: world_guarded_loop_fields prices32)
  note t = purchase_guard_aborts[where spPriceData = "[''AK-47'' \<mapsto> 100]"
               and names = "[''AK-47'']" and i = 0
               and purchases = "[]" and balance' = 1000 and ?w0.0 = world_guarded and b = 1000
               and wa = world_guarded_loop and sp = "[''AK-47'' \<mapsto> 100]" and n' = 1
               and names' = "[''AK-47'']" and wb = world_guarded_searched and m = 7,
             OF h1 h2 h3 h4 h5 h6]
  from t have a: "buy_loop 1 [''AK-47''] [''AK-47'' \<mapsto> 100] 0 0 [] 1000 world_guarded_loop
       = (ResolvedEmpty, world_guarded_searched)" by blast
  from t have "filter is_purchase (trace world_guarded_searched)
                 = filter is_purchase (trace world_guarded_loop)" by blast
  then have b: "filter is_purchase (trace world_guarded_searched) = []"
    by (simp add: world_guarded_loop_fields)
  from t world_guarded_fields(2) bal prices a
  have c: "buyPlaceholderItems 1 [''AK-47''] 7 world_guarded
       = ((Resolved [], [''AK-47'']), world_guarded_searched)" by blast
  from h1 h2 h3 h4 h5 h6 a b c show ?thesis by blast
qed



subsection \<open>A shortfall of purchases\<close>

text \<open>
  Claim C6 at a concrete input. Merchant 7 starts withdrawal 32 of one item; the lock, the
  trade link and the profile are in order, and the marketplace search for the item
  succeeds with no listing. Line 754 reads \<open>results[0].amount\<close> before line 760 checks
  \<open>results.length\<close>, so the callback throws, the promise of \<open>_buyPlaceholderItems\<close> is
  never settled and \<open>startWithdrawal\<close> never continues: zero purchases were made for one
  requested item, yet no failure is written (the withdrawal stays locked by merchant 7
  with \<open>failed_at\<close> null) and neither the scan of the marketplace inventory nor the
  relisting is started, where the claim has the sourcing return an empty list and the
  failure persisted. On the paths that do not throw, the lemmas
  \<open>buyPlaceholderItems_shortfall\<close> and \<open>withdrawal_items_nothing_sourced\<close> show what the
  claim states.
\<close>

theorem empty_search_result_hangs:
  "fst (startWithdrawal 32 world_no_listing) = NeverSettles
   \<and> map failed_at (trade_withdrawals (db (snd (startWithdrawal 32 world_no_listing)))) = [None]
   \<and> map merchant_steam_id (trade_withdrawals (db (snd (startWithdrawal 32 world_no_listing))))
       = [Some 7]
   \<and> trace (snd (startWithdrawal 32 world_no_listing))
       = [OpskinsGetBalance, SteamCreateOffer ''https://trade.example/42'', SteamGetUserDetails,
          OpskinsGetBalance, OpskinsSearch ''AK-47'']"
proof -
  have a: "fst (startWithdrawal 32 world_no_listing) = NeverSettles"
    by (simp add: sourcing_defs world_no_listing_def)
  have b: "map failed_at (trade_withdrawals (db (snd (startWithdrawal 32 world_no_listing)))) = [None]"
    by (simp add: sourcing_defs world_no_listing_def)
  have c: "map merchant_steam_id (trade_withdrawals (db (snd (startWithdrawal 32 world_no_listing))))
       = [Some 7]"
    by (simp add: sourcing_defs world_no_listing_def)
  have d: "trace (snd (startWithdrawal 32 world_no_listing))
       = [OpskinsGetBalance, SteamCreateOffer ''https://trade.example/42'', SteamGetUserDetails,
          OpskinsGetBalance, OpskinsSearch ''AK-47'']"
    by (simp add: sourcing_defs world_no_listing_def)
  from a b c d show ?thesis by blast
qed


end
